theory Spec2Isabelle
  imports Complex_Main
begin

section \<open>Data model\<close>

text \<open>
  A float of the source is a real number or the missing value: \<open>None\<close> is pandas' NaN.
  Rounding is not modelled, and neither are the infinities. A quotient of two floats is
  the real quotient when the divisor is not zero, and missing when it is: that is the
  source's NaN for 0 / 0; for a nonzero dividend the source has an infinity, which the
  model does not have, so theorems that depend on such a quotient exclude the zero divisor
  by hypothesis.
\<close>

type_synonym float = "real option"

text \<open>
  A pandas Timestamp, as far as the code reads it: the calendar year (\<open>index.year\<close>) and
  the position on the time line in seconds (a difference of two gives
  \<open>Timedelta.total_seconds()\<close>).
\<close>

record timestamp =
  year :: int
  seconds :: real

text \<open>A Series: index and values, one pair per row.\<close>

type_synonym series = "(timestamp \<times> float) list"

text \<open>
  The DataFrame handed to \<open>backtest\<close>. A column is absent (\<open>None\<close>) or holds one value
  per row. The input columns carry no missing values.
\<close>

record dataframe =
  index :: "timestamp list"
  Close :: "real list option"
  position :: "real list option"
  position_size :: "real list option"

text \<open>The frame \<open>df\<close> that \<open>backtest\<close> builds: the input columns and the derived ones.\<close>

record frame =
  df_index :: "timestamp list"
  df_Close :: "real list"
  df_position :: "real list"
  returns :: "float list"
  effective_position :: "float list"
  strategy_returns :: "float list"
  position_change :: "float list"
  trade_cost :: "float list"
  net_returns :: "float list"

datatype direction = Long | Short

record trade =
  entry_time :: timestamp
  exit_time :: timestamp
  entry_price :: real
  exit_price :: real
  direction :: direction
  pnl :: real

section \<open>Arithmetic on floats and the pandas operations the code calls\<close>

fun lift2 :: "(real \<Rightarrow> real \<Rightarrow> real) \<Rightarrow> float \<Rightarrow> float \<Rightarrow> float" where
  "lift2 f (Some x) (Some y) = Some (f x y)"
| "lift2 f _ _ = None"

definition fmul :: "float \<Rightarrow> float \<Rightarrow> float" where
  "fmul = lift2 (*)"

definition fsub :: "float \<Rightarrow> float \<Rightarrow> float" where
  "fsub = lift2 (-)"

definition fdiv :: "float \<Rightarrow> float \<Rightarrow> float" where
  "fdiv a b = (case (a, b) of
                 (Some x, Some y) \<Rightarrow> if y = 0 then None else Some (x / y)
               | _ \<Rightarrow> None)"

definition fabs :: "float \<Rightarrow> float" where
  "fabs = map_option abs"

text \<open>\<open>Series.shift(1)\<close>: every value moves one row down, the first row is missing.\<close>

definition shift1 :: "float list \<Rightarrow> float list" where
  "shift1 xs = (if xs = [] then [] else None # butlast xs)"

text \<open>\<open>Series.pct_change()\<close> on a column without missing values.\<close>

definition pct_change :: "real list \<Rightarrow> float list" where
  "pct_change xs = map2 (\<lambda>x p. fsub (fdiv (Some x) p) (Some 1)) xs (shift1 (map Some xs))"

text \<open>\<open>Series.diff()\<close> on a column without missing values.\<close>

definition diff :: "real list \<Rightarrow> float list" where
  "diff xs = map2 (\<lambda>x p. fsub (Some x) p) xs (shift1 (map Some xs))"

text \<open>
  \<open>Series.cumprod()\<close> and \<open>Series.cummax()\<close> skip missing values: a missing row stays
  missing and does not change the running value.
\<close>

fun cumprod_from :: "real \<Rightarrow> float list \<Rightarrow> float list" where
  "cumprod_from acc [] = []"
| "cumprod_from acc (None # xs) = None # cumprod_from acc xs"
| "cumprod_from acc (Some x # xs) = Some (acc * x) # cumprod_from (acc * x) xs"

definition cumprod :: "float list \<Rightarrow> float list" where
  "cumprod xs = cumprod_from 1 xs"

fun cummax_from :: "float \<Rightarrow> float list \<Rightarrow> float list" where
  "cummax_from acc [] = []"
| "cummax_from acc (None # xs) = None # cummax_from acc xs"
| "cummax_from None (Some x # xs) = Some x # cummax_from (Some x) xs"
| "cummax_from (Some m) (Some x # xs) = Some (max m x) # cummax_from (Some (max m x)) xs"

definition cummax :: "float list \<Rightarrow> float list" where
  "cummax xs = cummax_from None xs"

definition fillna :: "real \<Rightarrow> float list \<Rightarrow> float list" where
  "fillna v xs = map (\<lambda>x. case x of None \<Rightarrow> Some v | Some y \<Rightarrow> Some y) xs"

text \<open>The values that are present, in order: what the skipping reductions work on.\<close>

fun dropna :: "float list \<Rightarrow> real list" where
  "dropna [] = []"
| "dropna (None # xs) = dropna xs"
| "dropna (Some x # xs) = x # dropna xs"

text \<open>\<open>Series.mean()\<close>: the mean of the present values, missing when there is none.\<close>

definition mean :: "float list \<Rightarrow> float" where
  "mean xs = (let ys = dropna xs in
     if ys = [] then None else Some (sum_list ys / real (length ys)))"

text \<open>
  \<open>Series.std()\<close>: the sample standard deviation (\<open>ddof=1\<close>) of the present values,
  missing when fewer than two are present.
\<close>

definition std :: "float list \<Rightarrow> float" where
  "std xs = (let ys = dropna xs; n = length ys; m = sum_list ys / real n in
     if n < 2 then None
     else Some (sqrt (sum_list (map (\<lambda>y. (y - m)\<^sup>2) ys) / real (n - 1))))"

text \<open>\<open>Series.min()\<close>: the least present value, missing when there is none.\<close>

definition fmin :: "float list \<Rightarrow> float" where
  "fmin xs = (let ys = dropna xs in
     if ys = [] then None else Some (fold min (tl ys) (hd ys)))"

section \<open>engine.py: the derived columns of \<open>backtest\<close>\<close>

text \<open>
  Lines 35 to 49 of \<open>backtest\<close>, for a frame that has its \<open>Close\<close> and \<open>position\<close>
  columns: \<open>returns\<close>, \<open>effective_position\<close> (with or without a \<open>position_size\<close>
  column), \<open>strategy_returns\<close>, \<open>position_change\<close>, \<open>trade_cost\<close>, \<open>net_returns\<close>.
\<close>

definition backtest_frame :: "timestamp list \<Rightarrow> real list \<Rightarrow> real list \<Rightarrow> real list option
    \<Rightarrow> real \<Rightarrow> frame" where
  "backtest_frame idx cl pos sizes cost =
    (let rets = pct_change cl;
         eff = (case sizes of
                  Some sz \<Rightarrow> shift1 (map2 (\<lambda>p s. Some (p * s)) pos sz)
                | None \<Rightarrow> shift1 (map Some pos));
         strat = map2 fmul eff rets;
         chg = map fabs (diff pos);
         tc = map (\<lambda>c. fmul c (Some cost)) chg;
         net = map2 fsub strat tc
     in \<lparr> df_index = idx, df_Close = cl, df_position = pos, returns = rets,
          effective_position = eff, strategy_returns = strat, position_change = chg,
          trade_cost = tc, net_returns = net \<rparr>)"

section \<open>performance_metrics.py: the trade reconstructor\<close>

text \<open>
  The loop of \<open>identify_trades\<close> keeps four locals: \<open>in_position\<close>, \<open>entry_price\<close>,
  \<open>entry_direction\<close>, \<open>entry_time\<close>. The last three are read only while
  \<open>in_position\<close> is true and are assigned together whenever it becomes true, so the
  state is \<open>Flat\<close> (\<open>in_position\<close> false) or \<open>InPosition\<close> with the three values.
\<close>

datatype scan_state = Flat | InPosition real real timestamp

text \<open>One iteration of the loop body on the row \<open>(idx, Close, position)\<close>.\<close>

fun trade_step :: "scan_state \<times> trade list \<Rightarrow> timestamp \<times> real \<times> real
    \<Rightarrow> scan_state \<times> trade list" where
  "trade_step (Flat, trades) (idx, close, current_position) =
     (if current_position \<noteq> 0 then (InPosition close current_position idx, trades)
      else (Flat, trades))"
| "trade_step (InPosition ep ed et, trades) (idx, close, current_position) =
     (if current_position = 0 \<or> (current_position \<noteq> 0 \<and> current_position \<noteq> ed) then
        (let p = (if ed = 1 then (close - ep) / ep else (ep - close) / ep);
             trades' = trades @ [\<lparr> entry_time = et, exit_time = idx, entry_price = ep,
                                   exit_price = close,
                                   direction = (if ed = 1 then Long else Short), pnl = p \<rparr>]
         in if current_position \<noteq> 0 then (InPosition close current_position idx, trades')
            else (Flat, trades'))
      else (InPosition ep ed et, trades))"

text \<open>The rows of \<open>data.iterrows()\<close>, as far as the loop reads them.\<close>

definition iterrows :: "frame \<Rightarrow> (timestamp \<times> real \<times> real) list" where
  "iterrows data = zip (df_index data) (zip (df_Close data) (df_position data))"

text \<open>The loop over the rows from given locals and trades, and from the initial ones.\<close>

definition scan_from :: "scan_state \<times> trade list \<Rightarrow> (timestamp \<times> real \<times> real) list
    \<Rightarrow> scan_state \<times> trade list" where
  "scan_from st rows = fold (\<lambda>row st. trade_step st row) rows st"

definition scan :: "(timestamp \<times> real \<times> real) list \<Rightarrow> scan_state \<times> trade list" where
  "scan rows = scan_from (Flat, []) rows"

text \<open>\<open>position_change > 0\<close>: false on a missing value.\<close>

definition change_points :: "frame \<Rightarrow> float list" where
  "change_points data =
     filter (\<lambda>c. case c of None \<Rightarrow> False | Some v \<Rightarrow> v > 0) (position_change data)"

definition identify_trades :: "frame \<Rightarrow> trade list" where
  "identify_trades data =
     (if length (change_points data) = 0 then [] else snd (scan (iterrows data)))"

section \<open>performance_metrics.py: the metrics\<close>

datatype error = ValueError string | IndexError | KeyError int

text \<open>\<open>Series.median()\<close> of a column that is not empty and has no missing value.\<close>

definition median :: "real list \<Rightarrow> real" where
  "median xs = (let s = sort xs; n = length s in
     if odd n then s ! (n div 2) else (s ! (n div 2 - 1) + s ! (n div 2)) / 2)"

definition infer_frequency :: "timestamp list \<Rightarrow> nat" where
  "infer_frequency idx =
     (if length idx < 2 then 365
      else (let time_diffs = map2 (\<lambda>t p. seconds t - seconds p) (tl idx) idx;
                median_diff = median time_diffs;
                hours = median_diff / 3600
            in if hours \<le> 1 then 8760
               else if hours \<le> 4 then 2190
               else if hours \<le> 24 then 365
               else if hours \<le> 168 then 52
               else 12))"

text \<open>\<open>equity_curve.iloc[-1]\<close> raises IndexError on an empty Series.\<close>

definition calculate_total_return :: "float list \<Rightarrow> error + float" where
  "calculate_total_return equity_curve =
     (if equity_curve = [] then Inl IndexError
      else Inr (fsub (last equity_curve) (Some 1)))"

definition calculate_sharpe_ratio :: "float list \<Rightarrow> nat \<Rightarrow> float" where
  "calculate_sharpe_ratio rets periods_per_year =
     (if length rets < 2 then Some 0
      else (let mean_return = mean rets; std_return = std rets in
            if std_return = Some 0 then Some 0
            else fmul (fdiv mean_return std_return) (Some (sqrt (real periods_per_year)))))"

definition calculate_max_drawdown :: "float list \<Rightarrow> float" where
  "calculate_max_drawdown equity_curve =
     (let running_max = cummax equity_curve;
          drawdown = map2 (\<lambda>e m. fdiv (fsub e m) m) equity_curve running_max
      in fmin drawdown)"

definition calculate_win_rate :: "trade list \<Rightarrow> real" where
  "calculate_win_rate trades_df =
     (if length trades_df = 0 then 0
      else real (length (filter (\<lambda>t. pnl t > 0) trades_df)) / real (length trades_df))"

definition calculate_num_trades :: "trade list \<Rightarrow> nat" where
  "calculate_num_trades trades_df = length trades_df"

definition calculate_avg_win_loss_ratio :: "trade list \<Rightarrow> real" where
  "calculate_avg_win_loss_ratio trades_df =
     (if length trades_df = 0 then 0
      else (let winning_trades = map pnl (filter (\<lambda>t. pnl t > 0) trades_df);
                losing_trades = map pnl (filter (\<lambda>t. pnl t < 0) trades_df)
            in if length winning_trades = 0 \<or> length losing_trades = 0 then 0
               else (let avg_win = sum_list winning_trades / real (length winning_trades);
                         avg_loss = \<bar>sum_list losing_trades / real (length losing_trades)\<bar>
                     in avg_win / avg_loss)))"

text \<open>The profit factor is a number or \<open>np.inf\<close>.\<close>

datatype ratio = Finite real | Infinity

definition calculate_profit_factor :: "trade list \<Rightarrow> ratio" where
  "calculate_profit_factor trades_df =
     (if length trades_df = 0 then Finite 0
      else (let gross_profit = sum_list (map pnl (filter (\<lambda>t. pnl t > 0) trades_df));
                gross_loss = \<bar>sum_list (map pnl (filter (\<lambda>t. pnl t < 0) trades_df))\<bar>
            in if gross_loss = 0 then (if gross_profit > 0 then Infinity else Finite 0)
               else Finite (gross_profit / gross_loss)))"

definition calculate_calmar_ratio :: "float \<Rightarrow> float \<Rightarrow> float" where
  "calculate_calmar_ratio total_return max_drawdown =
     (if max_drawdown = Some 0 then Some 0
      else fdiv total_return (fabs max_drawdown))"

subsection \<open>Yearly metrics\<close>

text \<open>\<open>groupby(index.year)\<close>: the keys in ascending order, and the rows of one key.\<close>

definition group_keys :: "series \<Rightarrow> int list" where
  "group_keys s = sort (remdups (map (\<lambda>r. year (fst r)) s))"

definition group_rows :: "series \<Rightarrow> int \<Rightarrow> float list" where
  "group_rows s y = map snd (filter (\<lambda>r. year (fst r) = y) s)"

text \<open>
  \<open>get_group(year)\<close>. The grouping key is the array of the years of the rows; pandas 3
  raises KeyError for a name that is not a tuple when that key has length 1, so for every
  Series of one row. It raises KeyError for a year without rows as well.
\<close>

definition get_group :: "series \<Rightarrow> int \<Rightarrow> error + float list" where
  "get_group s y =
     (if length s = 1 then Inl (KeyError y)
      else if group_rows s y = [] then Inl (KeyError y)
      else Inr (group_rows s y))"

record yearly =
  yearly_returns :: "(int \<times> float) list"
  yearly_sharpe :: "(int \<times> float) list"
  yearly_max_drawdown :: "(int \<times> float) list"

text \<open>The body of the loop over the years: the three values of one year.\<close>

definition year_metrics :: "series \<Rightarrow> series \<Rightarrow> nat \<Rightarrow> int \<Rightarrow> error + (float \<times> float \<times> float)" where
  "year_metrics rets equity_curve periods_per_year y =
     (case get_group rets y of
        Inl e \<Rightarrow> Inl e
      | Inr year_returns \<Rightarrow>
         (case get_group equity_curve y of
            Inl e \<Rightarrow> Inl e
          | Inr year_equity \<Rightarrow>
             (let start_value = hd year_equity;
                  end_value = last year_equity;
                  yearly_return = fdiv (fsub end_value start_value) start_value;
                  mean_ret = mean year_returns;
                  std_ret = std year_returns;
                  sharpe = (if (case std_ret of None \<Rightarrow> False | Some sd \<Rightarrow> sd > 0)
                            then fmul (fdiv mean_ret std_ret) (Some (sqrt (real periods_per_year)))
                            else Some 0);
                  running_max = cummax year_equity;
                  drawdown = map2 (\<lambda>e m. fdiv (fsub e m) m) year_equity running_max
              in Inr (yearly_return, sharpe, fmin drawdown))))"

fun yearly_loop :: "series \<Rightarrow> series \<Rightarrow> nat \<Rightarrow> int list \<Rightarrow> yearly \<Rightarrow> error + yearly" where
  "yearly_loop rets equity_curve periods_per_year [] acc = Inr acc"
| "yearly_loop rets equity_curve periods_per_year (y # ys) acc =
     (case year_metrics rets equity_curve periods_per_year y of
        Inl e \<Rightarrow> Inl e
      | Inr (r, s, d) \<Rightarrow>
          yearly_loop rets equity_curve periods_per_year ys
            \<lparr> yearly_returns = yearly_returns acc @ [(y, r)],
              yearly_sharpe = yearly_sharpe acc @ [(y, s)],
              yearly_max_drawdown = yearly_max_drawdown acc @ [(y, d)] \<rparr>)"

definition calculate_yearly_metrics :: "series \<Rightarrow> series \<Rightarrow> nat \<Rightarrow> error + yearly" where
  "calculate_yearly_metrics rets equity_curve periods_per_year =
     yearly_loop rets equity_curve periods_per_year (group_keys rets)
       \<lparr> yearly_returns = [], yearly_sharpe = [], yearly_max_drawdown = [] \<rparr>"

subsection \<open>The report\<close>

record metrics =
  total_return :: float
  sharpe_ratio :: float
  max_drawdown :: float
  win_rate :: real
  num_trades :: nat
  avg_win_loss_ratio :: real
  profit_factor :: ratio
  calmar_ratio :: float
  m_yearly_returns :: "(int \<times> float) list"
  m_yearly_sharpe :: "(int \<times> float) list"
  m_yearly_max_drawdown :: "(int \<times> float) list"
  cost_percent :: real
  equity_curve :: "float list"
  trades :: "trade list"

text \<open>The equity curve of \<open>calculate_all_metrics\<close>: lines 216 and 217.\<close>

definition build_equity_curve :: "float list \<Rightarrow> float list" where
  "build_equity_curve net = fillna 1 (cumprod (map (\<lambda>r. lift2 (+) (Some 1) r) net))"

definition calculate_all_metrics :: "frame \<Rightarrow> float list \<Rightarrow> real \<Rightarrow> error + metrics" where
  "calculate_all_metrics data net cost =
     (let equity = build_equity_curve net;
          periods_per_year = infer_frequency (df_index data);
          trades_df = identify_trades data
      in case calculate_total_return equity of
           Inl e \<Rightarrow> Inl e
         | Inr tr \<Rightarrow>
            (let sharpe = calculate_sharpe_ratio net periods_per_year;
                 mdd = calculate_max_drawdown equity
             in case calculate_yearly_metrics (zip (df_index data) net)
                       (zip (df_index data) equity) periods_per_year of
                  Inl e \<Rightarrow> Inl e
                | Inr ym \<Rightarrow>
                    Inr \<lparr> total_return = tr, sharpe_ratio = sharpe, max_drawdown = mdd,
                          win_rate = calculate_win_rate trades_df,
                          num_trades = calculate_num_trades trades_df,
                          avg_win_loss_ratio = calculate_avg_win_loss_ratio trades_df,
                          profit_factor = calculate_profit_factor trades_df,
                          calmar_ratio = calculate_calmar_ratio tr mdd,
                          m_yearly_returns = yearly_returns ym,
                          m_yearly_sharpe = yearly_sharpe ym,
                          m_yearly_max_drawdown = yearly_max_drawdown ym,
                          cost_percent = cost, equity_curve = equity, trades = trades_df \<rparr>))"

section \<open>engine.py: the entry point\<close>

text \<open>
  \<open>backtest\<close>: the two column checks, the derived columns, the metrics. The plots read the
  result and return nothing, so they are not part of the value.
\<close>

definition backtest :: "dataframe \<Rightarrow> real \<Rightarrow> error + metrics" where
  "backtest data cost =
     (case Close data of
        None \<Rightarrow> Inl (ValueError ''Data must have 'Close' column'')
      | Some cl \<Rightarrow>
         (case position data of
            None \<Rightarrow> Inl (ValueError ''Data must have 'position' column (1=long, 0=flat, -1=short)'')
          | Some pos \<Rightarrow>
             (let df = backtest_frame (index data) cl pos (position_size data) cost
              in calculate_all_metrics df (net_returns df) cost)))"

section \<open>Well-formed input and the words of the specification\<close>

text \<open>
  A pandas DataFrame holds one value per row in every column it has: a column of another
  length cannot be stored.
\<close>

definition wf_dataframe :: "dataframe \<Rightarrow> bool" where
  "wf_dataframe data \<longleftrightarrow>
     list_all (\<lambda>col. case col of None \<Rightarrow> True | Some xs \<Rightarrow> length xs = length (index data))
       [Close data, position data, position_size data]"

text \<open>
  The bars that close a position: the position of the bar before is not zero, and the
  position of the bar is zero (a move to flat) or another value (a flip).
\<close>

definition closing_bars :: "real list \<Rightarrow> nat list" where
  "closing_bars pos =
     filter (\<lambda>k. pos ! (k - 1) \<noteq> 0 \<and> (pos ! k = 0 \<or> pos ! k \<noteq> pos ! (k - 1))) [1..<length pos]"

text \<open>
  The drawdown of a slice of the equity curve against the running maximum of that slice
  alone, and its minimum.
\<close>

definition slice_drawdowns :: "real list \<Rightarrow> real list" where
  "slice_drawdowns es =
     map (\<lambda>i. (es ! i - Max (set (take (Suc i) es))) / Max (set (take (Suc i) es)))
       [0..<length es]"

definition slice_max_drawdown :: "real list \<Rightarrow> real" where
  "slice_max_drawdown es = Min (set (slice_drawdowns es))"

section \<open>Concrete series\<close>

definition bar :: "nat \<Rightarrow> timestamp" where
  "bar n = \<lparr> year = 2024, seconds = 3600 * real n \<rparr>"

text \<open>Prices 100, 110, 99, 99 with positions 0, 1, 1, 0 and cost 0.\<close>

definition four_bars :: frame where
  "four_bars = backtest_frame [bar 0, bar 1, bar 2, bar 3] [100, 110, 99, 99] [0, 1, 1, 0] None 0"

definition four_bar_input :: dataframe where
  "four_bar_input = \<lparr> index = [bar 0, bar 1, bar 2, bar 3], Close = Some [100, 110, 99, 99],
                      position = Some [0, 1, 1, 0], position_size = None \<rparr>"

text \<open>Two bars with a position size of 2, and two bars whose timestamps go backwards.\<close>

definition oversized :: dataframe where
  "oversized = \<lparr> index = [bar 0, bar 1], Close = Some [100, 110], position = Some [1, 1],
                 position_size = Some [2, 2] \<rparr>"

definition unordered :: dataframe where
  "unordered = \<lparr> index = [bar 1, bar 0], Close = Some [100, 110], position = Some [1, 1],
                 position_size = Some [1, 1] \<rparr>"

text \<open>Three bars whose price falls to zero and stays there, long throughout.\<close>

definition zero_close :: dataframe where
  "zero_close = \<lparr> index = [bar 0, bar 1, bar 2], Close = Some [64, 0, 0],
                  position = Some [1, 1, 1], position_size = None \<rparr>"

text \<open>Two bars, long from the first: one return is observed.\<close>

definition two_bars :: dataframe where
  "two_bars = \<lparr> index = [bar 0, bar 1], Close = Some [100, 110], position = Some [1, 1],
                position_size = None \<rparr>"

text \<open>One year in which the equity rises from 1 to 2 and falls back to 3/2.\<close>

definition rise_and_fall :: series where
  "rise_and_fall = [(bar 0, Some 1), (bar 1, Some 2), (bar 2, Some (3 / 2))]"

definition rise_and_fall_returns :: series where
  "rise_and_fall_returns = [(bar 0, None), (bar 1, Some 1), (bar 2, Some (- 1 / 4))]"

text \<open>
  Two years: 2023 rises from 1 to 2 and falls to 3/2, 2024 rises from 3/2 to 8/5 and stays
  below the peak of 2023.
\<close>

definition stamp :: "int \<Rightarrow> nat \<Rightarrow> timestamp" where
  "stamp y n = \<lparr> year = y, seconds = 86400 * real n \<rparr>"

definition two_years_equity :: series where
  "two_years_equity = [(stamp 2023 0, Some 1), (stamp 2023 1, Some 2), (stamp 2023 2, Some (3 / 2)),
                       (stamp 2024 365, Some (3 / 2)), (stamp 2024 366, Some (8 / 5))]"

definition two_years_returns :: series where
  "two_years_returns = [(stamp 2023 0, None), (stamp 2023 1, Some 1), (stamp 2023 2, Some (- 1 / 4)),
                        (stamp 2024 365, Some 0), (stamp 2024 366, Some (1 / 15))]"

section \<open>The four-bar scenario\<close>

lemma four_bars_trades:
  "identify_trades four_bars =
     [\<lparr> entry_time = bar 1, exit_time = bar 3, entry_price = 110, exit_price = 99,
        direction = Long, pnl = - 1 / 10 \<rparr>]"
  by (simp add: identify_trades_def four_bars_def backtest_frame_def change_points_def
      diff_def shift1_def fabs_def fsub_def fmul_def pct_change_def fdiv_def scan_def
      scan_from_def iterrows_def Let_def)

text \<open>
  C1, as stated, fails: the single trade of the four-bar series does not enter at 100 and
  its pnl is not near -0.01.
\<close>

theorem four_bars_entry_not_100:
  "\<not> (length (identify_trades four_bars) = 1
      \<and> direction (hd (identify_trades four_bars)) = Long
      \<and> entry_price (hd (identify_trades four_bars)) = 100
      \<and> entry_time (hd (identify_trades four_bars)) = bar 1
      \<and> exit_price (hd (identify_trades four_bars)) = 99
      \<and> exit_time (hd (identify_trades four_bars)) = bar 3
      \<and> \<bar>pnl (hd (identify_trades four_bars)) - (- 1 / 100)\<bar> < 1 / 200)"
  by (simp add: four_bars_trades)

text \<open>
  C1, amended: for prices 100, 110, 99, 99, positions 0, 1, 1, 0 and cost 0 the trade
  reconstructor emits exactly one trade: Long, entered at t=1 at that bar's own close 110,
  left at t=3 at 99, with pnl (99 - 110) / 110 = -0.1.
\<close>

theorem four_bars_one_long_trade:
  "identify_trades four_bars =
     [\<lparr> entry_time = bar 1, exit_time = bar 3, entry_price = 110, exit_price = 99,
        direction = Long, pnl = (99 - 110) / 110 \<rparr>]"
  by (simp add: four_bars_trades)

section \<open>The derived columns, row by row\<close>

lemma length_shift1: "length (shift1 xs) = length xs"
  by (cases xs rule: rev_cases) (simp_all add: shift1_def)

lemma shift1_first: "xs \<noteq> [] \<Longrightarrow> shift1 xs ! 0 = None"
  by (simp add: shift1_def)

lemma nth_shift1: "0 < i \<Longrightarrow> i < length xs \<Longrightarrow> shift1 xs ! i = xs ! (i - 1)"
  by (cases i) (auto simp: shift1_def nth_butlast)

lemma length_diff: "length (diff xs) = length xs"
  by (simp add: diff_def length_shift1)

lemma nth_diff: "0 < i \<Longrightarrow> i < length xs \<Longrightarrow> diff xs ! i = Some (xs ! i - xs ! (i - 1))"
  by (simp add: diff_def length_shift1 nth_shift1 fsub_def)

lemma diff_first: "xs \<noteq> [] \<Longrightarrow> diff xs ! 0 = None"
  by (simp add: diff_def length_shift1 shift1_first fsub_def)

lemma length_pct_change: "length (pct_change xs) = length xs"
  by (simp add: pct_change_def length_shift1)

lemma nth_pct_change:
  "0 < i \<Longrightarrow> i < length xs \<Longrightarrow> xs ! (i - 1) \<noteq> 0 \<Longrightarrow>
     pct_change xs ! i = Some (xs ! i / xs ! (i - 1) - 1)"
  by (simp add: pct_change_def length_shift1 nth_shift1 fsub_def fdiv_def)

lemma nth_pct_change_zero:
  "0 < i \<Longrightarrow> i < length xs \<Longrightarrow> xs ! (i - 1) = 0 \<Longrightarrow> pct_change xs ! i = None"
  by (simp add: pct_change_def length_shift1 nth_shift1 fsub_def fdiv_def)

lemma pct_change_first: "xs \<noteq> [] \<Longrightarrow> pct_change xs ! 0 = None"
  by (simp add: pct_change_def length_shift1 shift1_first fsub_def fdiv_def)

section \<open>The loop of the trade reconstructor\<close>

lemma scan_from_append: "scan_from st (xs @ ys) = scan_from (scan_from st xs) ys"
  by (simp add: scan_from_def)

lemma scan_snoc: "scan (rows @ [r]) = trade_step (scan rows) r"
  by (simp add: scan_def scan_from_def)

lemma trade_step_acc:
  "trade_step (s, ts) r = (fst (trade_step (s, []) r), ts @ snd (trade_step (s, []) r))"
  by (cases s; cases r) (auto simp: Let_def)

lemma scan_from_acc:
  "scan_from (s, ts) rows = (fst (scan_from (s, []) rows), ts @ snd (scan_from (s, []) rows))"
proof (induction rows arbitrary: s ts)
  case Nil
  then show ?case by (simp add: scan_from_def)
next
  case (Cons r rows)
  obtain s' ts' where st: "trade_step (s, []) r = (s', ts')" by (cases "trade_step (s, []) r") auto
  have a: "scan_from (s, ts) (r # rows) = scan_from (s', ts @ ts') rows"
    using trade_step_acc[of s ts r] st by (simp add: scan_from_def)
  have b: "scan_from (s, []) (r # rows) = scan_from (s', ts') rows"
    using st by (simp add: scan_from_def)
  show ?case
    unfolding a b using Cons.IH[of s' "ts @ ts'"] Cons.IH[of s' ts'] by simp
qed

lemma scan_from_entry:
  "snd (scan_from (InPosition ep ed et, []) rows) = [] \<or>
   (entry_time (hd (snd (scan_from (InPosition ep ed et, []) rows))) = et \<and>
    entry_price (hd (snd (scan_from (InPosition ep ed et, []) rows))) = ep \<and>
    direction (hd (snd (scan_from (InPosition ep ed et, []) rows))) = (if ed = 1 then Long else Short))"
proof (induction rows)
  case Nil
  then show ?case by (simp add: scan_from_def)
next
  case (Cons r rows)
  obtain idx c p where r: "r = (idx, c, p)" by (cases r) auto
  show ?case
  proof (cases "p = 0 \<or> p \<noteq> ed")
    case True
    define t where "t = \<lparr> entry_time = et, exit_time = idx, entry_price = ep, exit_price = c,
        direction = (if ed = 1 then Long else Short),
        pnl = (if ed = 1 then (c - ep) / ep else (ep - c) / ep) \<rparr>"
    define s' where "s' = (if p \<noteq> 0 then InPosition c p idx else Flat)"
    have st: "trade_step (InPosition ep ed et, []) r = (s', [t])"
      using True by (auto simp: r Let_def t_def s'_def)
    have t: "entry_time t = et" "entry_price t = ep" "direction t = (if ed = 1 then Long else Short)"
      by (simp_all add: t_def)
    have "scan_from (InPosition ep ed et, []) (r # rows) = scan_from (s', [t]) rows"
      using st by (simp add: scan_from_def)
    then have "snd (scan_from (InPosition ep ed et, []) (r # rows)) = [t] @ snd (scan_from (s', []) rows)"
      using scan_from_acc[of s' "[t]" rows] by simp
    then show ?thesis using t by simp
  next
    case False
    then have "trade_step (InPosition ep ed et, []) r = (InPosition ep ed et, [])"
      by (auto simp: r)
    then have "scan_from (InPosition ep ed et, []) (r # rows) = scan_from (InPosition ep ed et, []) rows"
      by (simp add: scan_from_def)
    then show ?thesis using Cons.IH by simp
  qed
qed

lemma scan_state:
  "rows \<noteq> [] \<Longrightarrow>
     (snd (snd (last rows)) = 0 \<longrightarrow> fst (scan rows) = Flat) \<and>
     (snd (snd (last rows)) \<noteq> 0 \<longrightarrow>
        (\<exists>ep et. fst (scan rows) = InPosition ep (snd (snd (last rows))) et))"
proof (induction rows rule: rev_induct)
  case Nil
  then show ?case by simp
next
  case (snoc r rows)
  obtain idx c p where r: "r = (idx, c, p)" by (cases r) auto
  obtain st ts where s: "scan rows = (st, ts)" by (cases "scan rows") auto
  show ?case
  proof (cases "rows = []")
    case True
    then show ?thesis by (simp add: scan_def scan_from_def r)
  next
    case False
    with snoc.IH s show ?thesis
      by (cases st) (auto simp: scan_snoc r Let_def)
  qed
qed


lemma closing_bars_snoc:
  "closing_bars (ps @ [p]) =
     closing_bars ps @ (if ps \<noteq> [] \<and> last ps \<noteq> 0 \<and> p \<noteq> last ps then [length ps] else [])"
proof (cases "ps = []")
  case True
  then show ?thesis by (simp add: closing_bars_def)
next
  case False
  let ?P = "\<lambda>qs k. qs ! (k - 1) \<noteq> 0 \<and> (qs ! k = 0 \<or> qs ! k \<noteq> qs ! (k - 1))"
  from False have up: "[1..<length (ps @ [p])] = [1..<length ps] @ [length ps]"
    by (cases ps) auto
  have old: "filter (?P (ps @ [p])) [1..<length ps] = filter (?P ps) [1..<length ps]"
    by (rule filter_cong) (auto simp: nth_append)
  have l: "(ps @ [p]) ! (length ps - 1) = last ps"
    using False by (simp add: nth_append last_conv_nth)
  have n: "(ps @ [p]) ! length ps = p" by simp
  have new: "?P (ps @ [p]) (length ps) \<longleftrightarrow> last ps \<noteq> 0 \<and> p \<noteq> last ps"
    unfolding l n by auto
  have "closing_bars (ps @ [p]) = filter (?P (ps @ [p])) ([1..<length ps] @ [length ps])"
    unfolding closing_bars_def up ..
  also have "\<dots> = filter (?P ps) [1..<length ps] @ filter (?P (ps @ [p])) [length ps]"
    unfolding filter_append old ..
  also have "\<dots> = closing_bars ps @ (if last ps \<noteq> 0 \<and> p \<noteq> last ps then [length ps] else [])"
    using new unfolding closing_bars_def by simp
  finally show ?thesis using False by simp
qed

lemma scan_exit_times:
  "map exit_time (snd (scan rows)) =
     map (\<lambda>k. fst (rows ! k)) (closing_bars (map (\<lambda>r. snd (snd r)) rows))"
proof (induction rows rule: rev_induct)
  case Nil
  then show ?case by (simp add: scan_def scan_from_def closing_bars_def)
next
  case (snoc r rows)
  obtain idx c p where r: "r = (idx, c, p)" by (cases r) auto
  obtain st ts where s: "scan rows = (st, ts)" by (cases "scan rows") auto
  have inb: "\<forall>k \<in> set (closing_bars (map (\<lambda>r. snd (snd r)) rows)). k < length rows"
    by (auto simp: closing_bars_def)
  have old: "map (\<lambda>k. fst ((rows @ [r]) ! k)) (closing_bars (map (\<lambda>r. snd (snd r)) rows))
      = map (\<lambda>k. fst (rows ! k)) (closing_bars (map (\<lambda>r. snd (snd r)) rows))"
    using inb by (auto simp: nth_append)
  show ?case
  proof (cases "rows = []")
    case True
    then show ?thesis by (simp add: scan_def scan_from_def r closing_bars_def)
  next
    case False
    from scan_state[OF False] s
    have st: "(snd (snd (last rows)) = 0 \<longrightarrow> st = Flat) \<and>
     (snd (snd (last rows)) \<noteq> 0 \<longrightarrow> (\<exists>ep et. st = InPosition ep (snd (snd (last rows))) et))"
      by simp
    show ?thesis
      using snoc.IH s st False old
      by (cases st) (auto simp: scan_snoc r Let_def closing_bars_snoc last_map)
  qed
qed

lemma iterrows_frame: "iterrows (backtest_frame idx cl pos sizes cost) = zip idx (zip cl pos)"
  by (simp add: iterrows_def backtest_frame_def Let_def)

lemma position_change_frame:
  "position_change (backtest_frame idx cl pos sizes cost) = map fabs (diff pos)"
  by (simp add: backtest_frame_def Let_def)

lemma rows_positions:
  "length cl = length idx \<Longrightarrow> length pos = length idx \<Longrightarrow>
     map (\<lambda>r. snd (snd r)) (zip idx (zip cl pos)) = pos"
  by (simp add: list_eq_iff_nth_eq)

lemma no_change_points:
  "change_points (backtest_frame idx cl pos sizes cost) = [] \<longleftrightarrow>
     (\<forall>k. 0 < k \<and> k < length pos \<longrightarrow> pos ! k = pos ! (k - 1))"
proof
  assume e: "change_points (backtest_frame idx cl pos sizes cost) = []"
  show "\<forall>k. 0 < k \<and> k < length pos \<longrightarrow> pos ! k = pos ! (k - 1)"
  proof (intro allI impI)
    fix k assume k: "0 < k \<and> k < length pos"
    then have "map fabs (diff pos) ! k = Some \<bar>pos ! k - pos ! (k - 1)\<bar>"
      by (simp add: length_diff nth_diff fabs_def)
    moreover have "map fabs (diff pos) ! k \<in> set (map fabs (diff pos))"
      using k by (intro nth_mem) (simp add: length_diff)
    ultimately have "Some \<bar>pos ! k - pos ! (k - 1)\<bar> \<in> set (position_change (backtest_frame idx cl pos sizes cost))"
      by (simp add: position_change_frame)
    with e have "\<not> \<bar>pos ! k - pos ! (k - 1)\<bar> > 0"
      unfolding change_points_def filter_empty_conv by fastforce
    then show "pos ! k = pos ! (k - 1)" by simp
  qed
next
  assume a: "\<forall>k. 0 < k \<and> k < length pos \<longrightarrow> pos ! k = pos ! (k - 1)"
  have "\<not> (case c of None \<Rightarrow> False | Some v \<Rightarrow> v > 0)" if "c \<in> set (map fabs (diff pos))" for c
  proof -
    from that obtain k where k: "k < length pos" and c: "c = map fabs (diff pos) ! k"
      by (metis in_set_conv_nth length_diff length_map)
    show ?thesis
    proof (cases "k = 0")
      case True
      with k c show ?thesis by (simp add: length_diff diff_first fabs_def)
    next
      case False
      with k c a show ?thesis by (simp add: length_diff nth_diff fabs_def)
    qed
  qed
  then show "change_points (backtest_frame idx cl pos sizes cost) = []"
    unfolding change_points_def filter_empty_conv position_change_frame by blast
qed

lemma closing_bars_no_change:
  "(\<forall>k. 0 < k \<and> k < length pos \<longrightarrow> pos ! k = pos ! (k - 1)) \<Longrightarrow> closing_bars pos = []"
  unfolding closing_bars_def filter_empty_conv by auto

lemma identify_trades_exit_times:
  assumes "length cl = length idx" "length pos = length idx"
  shows "map exit_time (identify_trades (backtest_frame idx cl pos sizes cost)) =
           map (\<lambda>k. idx ! k) (closing_bars pos)"
proof (cases "change_points (backtest_frame idx cl pos sizes cost) = []")
  case True
  then have "closing_bars pos = []"
    using no_change_points closing_bars_no_change by blast
  with True show ?thesis by (simp add: identify_trades_def)
next
  case False
  have inb: "\<forall>k \<in> set (closing_bars pos). k < length idx"
    using assms by (auto simp: closing_bars_def)
  have "map exit_time (identify_trades (backtest_frame idx cl pos sizes cost)) =
          map (\<lambda>k. fst (zip idx (zip cl pos) ! k)) (closing_bars pos)"
    using False scan_exit_times[of "zip idx (zip cl pos)"] assms
    by (simp add: identify_trades_def iterrows_frame rows_positions)
  also have "\<dots> = map (\<lambda>k. idx ! k) (closing_bars pos)"
    using inb assms by (intro map_cong) auto
  finally show ?thesis .
qed

text \<open>
  C6: for index, prices and positions of one length, the trade reconstructor emits exactly
  one trade per bar that closes a position (a move to flat or a flip), with that bar's
  timestamp as exit time and in that order; so an open position at the end of the series
  adds no trade, and the log is empty when the position never changes.
\<close>

theorem trades_are_closing_bars:
  assumes "length cl = length idx" "length pos = length idx"
  shows "length (identify_trades (backtest_frame idx cl pos sizes cost)) = length (closing_bars pos)
     \<and> map exit_time (identify_trades (backtest_frame idx cl pos sizes cost)) =
         map (\<lambda>k. idx ! k) (closing_bars pos)
     \<and> ((\<forall>k. 0 < k \<and> k < length pos \<longrightarrow> pos ! k = pos ! (k - 1)) \<longrightarrow>
           identify_trades (backtest_frame idx cl pos sizes cost) = [])"
proof -
  have e: "map exit_time (identify_trades (backtest_frame idx cl pos sizes cost)) =
         map (\<lambda>k. idx ! k) (closing_bars pos)"
    using assms by (rule identify_trades_exit_times)
  from arg_cong[OF e, of length]
  have l: "length (identify_trades (backtest_frame idx cl pos sizes cost)) = length (closing_bars pos)"
    by simp
  have n: "(\<forall>k. 0 < k \<and> k < length pos \<longrightarrow> pos ! k = pos ! (k - 1)) \<longrightarrow>
           identify_trades (backtest_frame idx cl pos sizes cost) = []"
    using no_change_points[of idx cl pos sizes cost] by (simp add: identify_trades_def)
  from l e n show ?thesis by blast
qed

theorem trades_are_closing_bars_witness:
  "length (identify_trades (backtest_frame [bar 0, bar 1, bar 2, bar 3] [100, 110, 99, 99] [0, 1, 1, 0] None 0)) = 1
   \<and> closing_bars [0, 1, 1, 0] = [3]
   \<and> identify_trades (backtest_frame [bar 0, bar 1, bar 2] [100, 110, 99] [1, 1, 1] None 0) = []
   \<and> closing_bars [0, 1, 1] = []
   \<and> length (identify_trades (backtest_frame [bar 0, bar 1, bar 2] [100, 110, 99] [0, 1, 1] None 0)) = 0"
proof -
  have c: "closing_bars [0, 1, 1, 0] = [3]" "closing_bars [0, 1, 1] = []"
    by (simp_all add: closing_bars_def upt_rec)
  have n: "\<forall>k. 0 < k \<and> k < length [1, 1, 1 :: real] \<longrightarrow> [1, 1, 1 :: real] ! k = [1, 1, 1] ! (k - 1)"
    by (auto simp: nth_Cons split: nat.splits)
  show ?thesis
    using trades_are_closing_bars[of "[100, 110, 99, 99]" "[bar 0, bar 1, bar 2, bar 3]" "[0, 1, 1, 0]" None 0]
      trades_are_closing_bars[of "[100, 110, 99]" "[bar 0, bar 1, bar 2]" "[1, 1, 1]" None 0]
      trades_are_closing_bars[of "[100, 110, 99]" "[bar 0, bar 1, bar 2]" "[0, 1, 1]" None 0]
      c n by simp
qed

section \<open>The entry point returns a report\<close>

lemma length_cumprod_from: "length (cumprod_from acc xs) = length xs"
  by (induction acc xs rule: cumprod_from.induct) auto

lemma length_build_equity_curve: "length (build_equity_curve net) = length net"
  by (simp add: build_equity_curve_def fillna_def cumprod_def length_cumprod_from)

lemma length_net_returns:
  assumes "length cl = n" "length pos = n" "case sizes of None \<Rightarrow> True | Some sz \<Rightarrow> length sz = n"
  shows "length (net_returns (backtest_frame idx cl pos sizes cost)) = n"
  using assms
  by (cases sizes) (simp_all add: backtest_frame_def Let_def length_shift1 length_pct_change length_diff)

lemma group_rows_nonempty:
  assumes "y \<in> set (group_keys (zip idx a))" "length a = length idx" "length b = length idx"
  shows "group_rows (zip idx b) y \<noteq> []"
proof -
  from assms(1) obtain r where "r \<in> set (zip idx a)" "year (fst r) = y"
    by (auto simp: group_keys_def)
  then have "fst r \<in> set idx" by (metis in_set_zipE prod.collapse)
  then obtain i where i: "i < length idx" "idx ! i = fst r" by (auto simp: in_set_conv_nth)
  then have "(idx ! i, b ! i) \<in> set (zip idx b)"
    using assms(3) unfolding set_zip by (intro CollectI exI[of _ i]) simp
  with i \<open>year (fst r) = y\<close> have "\<exists>q \<in> set (zip idx b). year (fst q) = y"
    by (intro bexI[of _ "(idx ! i, b ! i)"]) simp_all
  then show ?thesis
    by (auto simp: group_rows_def filter_empty_conv)
qed

lemma get_group_Inr:
  "length s \<noteq> 1 \<Longrightarrow> group_rows s y \<noteq> [] \<Longrightarrow> get_group s y = Inr (group_rows s y)"
  by (simp add: get_group_def)

lemma get_group_rows: "get_group s y = Inr rows \<Longrightarrow> rows = group_rows s y"
  by (auto simp: get_group_def split: if_splits)

lemma get_group_error: "get_group s y = Inl e \<Longrightarrow> e = KeyError y"
  by (auto simp: get_group_def split: if_splits)

lemma yearly_loop_total:
  "(\<forall>y \<in> set ys. get_group rets y = Inr (group_rows rets y)
       \<and> get_group eq y = Inr (group_rows eq y)) \<Longrightarrow>
   \<exists>ym. yearly_loop rets eq ppy ys acc = Inr ym"
proof (induction ys arbitrary: acc)
  case Nil
  then show ?case by simp
next
  case (Cons y ys)
  then have "get_group rets y = Inr (group_rows rets y)" "get_group eq y = Inr (group_rows eq y)"
    by simp_all
  then obtain r s d where "year_metrics rets eq ppy y = Inr (r, s, d)"
    by (simp add: year_metrics_def Let_def)
  with Cons show ?case by simp
qed

lemma yearly_loop_error:
  "yearly_loop rets eq ppy ys acc = Inl e \<Longrightarrow> \<exists>y. e = KeyError y"
proof (induction ys arbitrary: acc)
  case Nil
  then show ?case by simp
next
  case (Cons y ys)
  show ?case
  proof (cases "year_metrics rets eq ppy y")
    case (Inl e')
    with Cons.prems have "e = e'" by simp
    moreover from Inl have "e' = KeyError y"
      by (auto simp: year_metrics_def Let_def split: sum.splits dest: get_group_error)
    ultimately show ?thesis by blast
  next
    case (Inr t)
    with Cons show ?thesis by (cases t) auto
  qed
qed

lemma calculate_all_metrics_error:
  assumes "calculate_all_metrics data net cost = Inl e"
  shows "e = IndexError \<or> (\<exists>y. e = KeyError y)"
proof (cases "calculate_total_return (build_equity_curve net)")
  case (Inl e')
  with assms have "e = e'" by (simp add: calculate_all_metrics_def Let_def)
  with Inl show ?thesis by (auto simp: calculate_total_return_def split: if_splits)
next
  case (Inr tr)
  with assms have "calculate_yearly_metrics (zip (df_index data) net)
      (zip (df_index data) (build_equity_curve net)) (infer_frequency (df_index data)) = Inl e"
    by (auto simp: calculate_all_metrics_def Let_def split: sum.splits)
  then show ?thesis
    unfolding calculate_yearly_metrics_def by (auto dest: yearly_loop_error)
qed

lemma calculate_all_metrics_total:
  assumes "length net = length (df_index data)" "2 \<le> length net"
  shows "\<exists>m. calculate_all_metrics data net cost = Inr m"
proof -
  let ?eq = "build_equity_curve net"
  let ?idx = "df_index data"
  have ne: "?eq \<noteq> []" using assms(2) length_build_equity_curve[of net] by auto
  have l: "length (zip ?idx net) \<noteq> 1" "length (zip ?idx ?eq) \<noteq> 1"
    using assms by (simp_all add: length_build_equity_curve)
  have "get_group (zip ?idx net) y = Inr (group_rows (zip ?idx net) y)
      \<and> get_group (zip ?idx ?eq) y = Inr (group_rows (zip ?idx ?eq) y)"
    if y: "y \<in> set (group_keys (zip ?idx net))" for y
  proof -
    have "group_rows (zip ?idx net) y \<noteq> []"
      using y assms(1) by (intro group_rows_nonempty[of y ?idx net net]) simp_all
    moreover have "group_rows (zip ?idx ?eq) y \<noteq> []"
      using y assms(1) by (intro group_rows_nonempty[of y ?idx net ?eq])
        (simp_all add: length_build_equity_curve)
    ultimately show ?thesis using l by (simp add: get_group_Inr)
  qed
  then have "\<forall>y \<in> set (group_keys (zip ?idx net)).
      get_group (zip ?idx net) y = Inr (group_rows (zip ?idx net) y)
      \<and> get_group (zip ?idx ?eq) y = Inr (group_rows (zip ?idx ?eq) y)"
    by blast
  from yearly_loop_total[OF this]
  obtain ym where "calculate_yearly_metrics (zip ?idx net) (zip ?idx ?eq)
      (infer_frequency ?idx) = Inr ym"
    unfolding calculate_yearly_metrics_def by blast
  with ne show ?thesis
    by (simp add: calculate_all_metrics_def Let_def calculate_total_return_def)
qed

lemma wf_dataframe_lengths:
  assumes "wf_dataframe data" "Close data = Some cl" "position data = Some pos"
  shows "length cl = length (index data)" "length pos = length (index data)"
    "case position_size data of None \<Rightarrow> True | Some sz \<Rightarrow> length sz = length (index data)"
  using assms by (simp_all add: wf_dataframe_def)

lemma backtest_total:
  assumes "wf_dataframe data" "Close data = Some cl" "position data = Some pos"
    "2 \<le> length (index data)"
  shows "\<exists>m. backtest data cost = Inr m"
proof -
  let ?df = "backtest_frame (index data) cl pos (position_size data) cost"
  have l: "length (net_returns ?df) = length (index data)"
    using wf_dataframe_lengths[OF assms(1-3)] by (intro length_net_returns) auto
  have i: "df_index ?df = index data" by (simp add: backtest_frame_def Let_def)
  from l assms(4) have "2 \<le> length (net_returns ?df)" by simp
  with l i calculate_all_metrics_total[of "net_returns ?df" ?df cost]
  show ?thesis using assms(2,3) by (simp add: backtest_def Let_def)
qed

lemma backtest_no_ValueError:
  assumes "Close data = Some cl" "position data = Some pos"
  shows "backtest data cost \<noteq> Inl (ValueError s)"
proof
  assume "backtest data cost = Inl (ValueError s)"
  with assms have "calculate_all_metrics (backtest_frame (index data) cl pos (position_size data) cost)
      (net_returns (backtest_frame (index data) cl pos (position_size data) cost)) cost =
      Inl (ValueError s)"
    by (simp add: backtest_def Let_def)
  from calculate_all_metrics_error[OF this] show False by auto
qed

lemma backtest_Inr:
  assumes "backtest data cost = Inr m"
  shows "\<exists>cl pos. Close data = Some cl \<and> position data = Some pos \<and>
     calculate_all_metrics (backtest_frame (index data) cl pos (position_size data) cost)
       (net_returns (backtest_frame (index data) cl pos (position_size data) cost)) cost = Inr m"
  using assms by (auto simp: backtest_def Let_def split: option.splits)

lemma calculate_all_metrics_Inr:
  assumes "calculate_all_metrics data net cost = Inr m"
  shows "trades m = identify_trades data"
    "equity_curve m = build_equity_curve net"
    "sharpe_ratio m = calculate_sharpe_ratio net (infer_frequency (df_index data))"
    "net \<noteq> []"
    "\<exists>ym. calculate_yearly_metrics (zip (df_index data) net)
            (zip (df_index data) (build_equity_curve net)) (infer_frequency (df_index data)) = Inr ym
          \<and> m_yearly_max_drawdown m = yearly_max_drawdown ym
          \<and> m_yearly_sharpe m = yearly_sharpe ym \<and> m_yearly_returns m = yearly_returns ym"
  using assms
  by (auto simp: calculate_all_metrics_def Let_def calculate_total_return_def build_equity_curve_def
      fillna_def cumprod_def split: sum.splits if_splits)

lemma backtest_empty:
  assumes "Close data = Some cl" "position data = Some pos" "wf_dataframe data" "index data = []"
  shows "backtest data cost = Inl IndexError"
  using assms
  by (cases "position_size data")
     (simp_all add: backtest_def wf_dataframe_def backtest_frame_def Let_def pct_change_def diff_def
      shift1_def calculate_all_metrics_def build_equity_curve_def fillna_def cumprod_def
      calculate_total_return_def)

lemma oversized_report: "\<exists>m. backtest oversized 0 = Inr m"
  by (rule backtest_total[of oversized "[100, 110]" "[1, 1]"])
     (simp_all add: oversized_def wf_dataframe_def)

lemma unordered_report: "\<exists>m. backtest unordered 0 = Inr m"
  by (rule backtest_total[of unordered "[100, 110]" "[1, 1]"])
     (simp_all add: unordered_def wf_dataframe_def)

text \<open>
  C2, as stated, fails: a frame whose position size is 2 and a frame whose timestamps go
  backwards both get a report, not an error.
\<close>

theorem unvalidated_inputs_get_report:
  "position_size oversized = Some [2, 2] \<and> \<not> isl (backtest oversized 0)
   \<and> map seconds (index unordered) = [3600, 0] \<and> \<not> isl (backtest unordered 0)"
proof -
  from oversized_report obtain m where "backtest oversized 0 = Inr m" ..
  moreover from unordered_report obtain m' where "backtest unordered 0 = Inr m'" ..
  ultimately show ?thesis by (simp add: oversized_def unordered_def bar_def)
qed

text \<open>
  C2, amended: \<open>backtest\<close> raises its input-validation error for a missing \<open>Close\<close>
  column and, with \<open>Close\<close> present, for a missing \<open>position\<close> column, before anything is
  computed, and for no other input: with both columns present no result is a validation
  error, an empty frame ends in the IndexError of the total return, and a well-formed frame
  of two or more rows gets a complete report, whatever its timestamps and position sizes
  are. A result is an error or a whole report, never a part of one.
\<close>

theorem backtest_validation:
  "(Close data = None \<longrightarrow> backtest data cost = Inl (ValueError ''Data must have 'Close' column''))
   \<and> (Close data \<noteq> None \<and> position data = None \<longrightarrow>
        backtest data cost = Inl (ValueError ''Data must have 'position' column (1=long, 0=flat, -1=short)''))
   \<and> (Close data \<noteq> None \<and> position data \<noteq> None \<longrightarrow>
        (\<forall>s. backtest data cost \<noteq> Inl (ValueError s)))
   \<and> (Close data \<noteq> None \<and> position data \<noteq> None \<and> wf_dataframe data \<and> index data = [] \<longrightarrow>
        backtest data cost = Inl IndexError)
   \<and> (Close data \<noteq> None \<and> position data \<noteq> None \<and> wf_dataframe data \<and> 2 \<le> length (index data) \<longrightarrow>
        (\<exists>m. backtest data cost = Inr m))"
proof (intro conjI impI allI)
  assume "Close data = None"
  then show "backtest data cost = Inl (ValueError ''Data must have 'Close' column'')"
    by (simp add: backtest_def)
next
  assume "Close data \<noteq> None \<and> position data = None"
  then show "backtest data cost = Inl (ValueError ''Data must have 'position' column (1=long, 0=flat, -1=short)'')"
    by (auto simp: backtest_def)
next
  fix s
  assume "Close data \<noteq> None \<and> position data \<noteq> None"
  then obtain cl pos where "Close data = Some cl" "position data = Some pos" by auto
  then show "backtest data cost \<noteq> Inl (ValueError s)" by (rule backtest_no_ValueError)
next
  assume a: "Close data \<noteq> None \<and> position data \<noteq> None \<and> wf_dataframe data \<and> index data = []"
  then obtain cl pos where "Close data = Some cl" "position data = Some pos" by auto
  with a show "backtest data cost = Inl IndexError"
    by (intro backtest_empty[of data cl pos]) auto
next
  assume a: "Close data \<noteq> None \<and> position data \<noteq> None \<and> wf_dataframe data \<and> 2 \<le> length (index data)"
  then obtain cl pos where "Close data = Some cl" "position data = Some pos" by auto
  with a show "\<exists>m. backtest data cost = Inr m"
    by (intro backtest_total[of data cl pos]) auto
qed

theorem backtest_validation_witness:
  "backtest \<lparr> index = [bar 0], Close = None, position = Some [1], position_size = None \<rparr> 0
      = Inl (ValueError ''Data must have 'Close' column'')
   \<and> backtest \<lparr> index = [bar 0], Close = Some [100], position = None, position_size = None \<rparr> 0
      = Inl (ValueError ''Data must have 'position' column (1=long, 0=flat, -1=short)'')
   \<and> (\<forall>s. backtest \<lparr> index = [bar 0], Close = Some [100], position = Some [1], position_size = None \<rparr> 0
        \<noteq> Inl (ValueError s))
   \<and> backtest \<lparr> index = [], Close = Some [], position = Some [], position_size = None \<rparr> 0
      = Inl IndexError
   \<and> wf_dataframe oversized \<and> 2 \<le> length (index oversized)
   \<and> (\<exists>m. backtest oversized 0 = Inr m)"
  using backtest_validation[of "\<lparr> index = [bar 0], Close = None, position = Some [1], position_size = None \<rparr>" 0]
    backtest_validation[of "\<lparr> index = [bar 0], Close = Some [100], position = None, position_size = None \<rparr>" 0]
    backtest_validation[of "\<lparr> index = [bar 0], Close = Some [100], position = Some [1], position_size = None \<rparr>" 0]
    backtest_validation[of "\<lparr> index = [], Close = Some [], position = Some [], position_size = None \<rparr>" 0]
    backtest_validation[of oversized 0]
  by (simp add: oversized_def wf_dataframe_def)

section \<open>The trade log does not read the position size\<close>





text \<open>
  C5: at a bar \<open>k\<close> where the position goes from one nonzero value directly to another,
  the trade reconstructor adds exactly one trade to those emitted before the bar; the
  trade closes the old direction at bar \<open>k\<close>'s price and timestamp, and the position
  held after the bar has bar \<open>k\<close>'s price and timestamp as its entry, which the next
  trade of the log, if there is one, reports.
\<close>

theorem flip_closes_and_reopens:
  assumes len: "length cl = length idx" "length pos = length idx"
    and k: "0 < k" "k < length idx"
    and flip: "pos ! (k - 1) \<noteq> 0" "pos ! k \<noteq> 0" "pos ! k \<noteq> pos ! (k - 1)"
  shows "\<exists>t rest.
      identify_trades (backtest_frame idx cl pos sizes cost) =
        snd (scan (take k (zip idx (zip cl pos)))) @ [t] @ rest
    \<and> exit_time t = idx ! k \<and> exit_price t = cl ! k
    \<and> direction t = (if pos ! (k - 1) = 1 then Long else Short)
    \<and> scan (take (Suc k) (zip idx (zip cl pos))) =
        (InPosition (cl ! k) (pos ! k) (idx ! k), snd (scan (take k (zip idx (zip cl pos)))) @ [t])
    \<and> (rest = [] \<or>
         (entry_time (hd rest) = idx ! k \<and> entry_price (hd rest) = cl ! k
          \<and> direction (hd rest) = (if pos ! k = 1 then Long else Short)))"
proof -
  let ?rows = "zip idx (zip cl pos)"
  have n: "length ?rows = length idx" using len by simp
  have rk: "?rows ! k = (idx ! k, cl ! k, pos ! k)" using len k by simp
  have tk: "take (Suc k) ?rows = take k ?rows @ [?rows ! k]"
    using k n by (simp add: take_Suc_conv_app_nth)
  have ne: "take k ?rows \<noteq> []" using k n by auto
  have "last (take k ?rows) = ?rows ! (k - 1)"
    using ne k n by (simp add: last_conv_nth)
  also have "\<dots> = (idx ! (k - 1), cl ! (k - 1), pos ! (k - 1))" using len k by simp
  finally have lp: "snd (snd (last (take k ?rows))) = pos ! (k - 1)" by simp
  from scan_state[OF ne] lp flip(1)
  obtain ep et where st: "fst (scan (take k ?rows)) = InPosition ep (pos ! (k - 1)) et"
    by auto
  define ts where "ts = snd (scan (take k ?rows))"
  define t where "t = \<lparr> entry_time = et, exit_time = idx ! k, entry_price = ep,
      exit_price = cl ! k, direction = (if pos ! (k - 1) = 1 then Long else Short),
      pnl = (if pos ! (k - 1) = 1 then (cl ! k - ep) / ep else (ep - cl ! k) / ep) \<rparr>"
  have sk: "scan (take k ?rows) = (InPosition ep (pos ! (k - 1)) et, ts)"
    using st by (simp add: ts_def prod_eq_iff)
  have sk1: "scan (take (Suc k) ?rows) = (InPosition (cl ! k) (pos ! k) (idx ! k), ts @ [t])"
    unfolding tk scan_snoc sk rk using flip by (simp add: Let_def t_def)
  define rest where "rest = snd (scan_from (InPosition (cl ! k) (pos ! k) (idx ! k), []) (drop (Suc k) ?rows))"
  have "scan ?rows = scan_from (scan (take (Suc k) ?rows)) (drop (Suc k) ?rows)"
    using scan_from_append[of "(Flat, [])" "take (Suc k) ?rows" "drop (Suc k) ?rows"]
    by (simp add: scan_def)
  then have all: "snd (scan ?rows) = ts @ [t] @ rest"
    unfolding sk1 rest_def
    using scan_from_acc[of "InPosition (cl ! k) (pos ! k) (idx ! k)" "ts @ [t]" "drop (Suc k) ?rows"]
    by simp
  have "change_points (backtest_frame idx cl pos sizes cost) \<noteq> []"
    using no_change_points[of idx cl pos sizes cost] k len flip(3) by auto
  then have it: "identify_trades (backtest_frame idx cl pos sizes cost) = ts @ [t] @ rest"
    using all by (simp add: identify_trades_def iterrows_frame)
  have r: "rest = [] \<or>
         (entry_time (hd rest) = idx ! k \<and> entry_price (hd rest) = cl ! k
          \<and> direction (hd rest) = (if pos ! k = 1 then Long else Short))"
    unfolding rest_def by (rule scan_from_entry)
  have tt: "exit_time t = idx ! k" "exit_price t = cl ! k"
    "direction t = (if pos ! (k - 1) = 1 then Long else Short)"
    by (simp_all add: t_def)
  show ?thesis
    using it tt sk1 r unfolding ts_def by blast
qed

theorem flip_closes_and_reopens_witness:
  "(0 :: nat) < 2 \<and> (2 :: nat) < length [bar 0, bar 1, bar 2, bar 3]
   \<and> [1, 1, - 1, 0 :: real] ! (2 - 1) \<noteq> 0 \<and> [1, 1, - 1, 0 :: real] ! 2 \<noteq> 0
   \<and> [1, 1, - 1, 0 :: real] ! 2 \<noteq> [1, 1, - 1, 0] ! (2 - 1)
   \<and> (\<exists>t rest.
      identify_trades (backtest_frame [bar 0, bar 1, bar 2, bar 3] [100, 100, 100, 90] [1, 1, - 1, 0] None 0) =
        snd (scan (take 2 (zip [bar 0, bar 1, bar 2, bar 3] (zip [100, 100, 100, 90] [1, 1, - 1, 0])))) @ [t] @ rest
    \<and> exit_time t = bar 2 \<and> exit_price t = 100 \<and> direction t = Long
    \<and> (rest = [] \<or> (entry_time (hd rest) = bar 2 \<and> entry_price (hd rest) = 100 \<and> direction (hd rest) = Short)))"
proof -
  have h: "length [100, 100, 100, 90 :: real] = length [bar 0, bar 1, bar 2, bar 3]"
    "length [1, 1, - 1, 0 :: real] = length [bar 0, bar 1, bar 2, bar 3]"
    "(0 :: nat) < 2" "(2 :: nat) < length [bar 0, bar 1, bar 2, bar 3]"
    "[1, 1, - 1, 0 :: real] ! (2 - 1) \<noteq> 0" "[1, 1, - 1, 0 :: real] ! 2 \<noteq> 0"
    "[1, 1, - 1, 0 :: real] ! 2 \<noteq> [1, 1, - 1, 0] ! (2 - 1)"
    by simp_all
  from flip_closes_and_reopens[OF h, of None 0]
  obtain t rest where
    "identify_trades (backtest_frame [bar 0, bar 1, bar 2, bar 3] [100, 100, 100, 90] [1, 1, - 1, 0] None 0) =
        snd (scan (take 2 (zip [bar 0, bar 1, bar 2, bar 3] (zip [100, 100, 100, 90] [1, 1, - 1, 0])))) @ [t] @ rest"
    "exit_time t = [bar 0, bar 1, bar 2, bar 3] ! 2" "exit_price t = [100, 100, 100, 90 :: real] ! 2"
    "direction t = (if [1, 1, - 1, 0 :: real] ! (2 - 1) = 1 then Long else Short)"
    "rest = [] \<or> (entry_time (hd rest) = [bar 0, bar 1, bar 2, bar 3] ! 2
       \<and> entry_price (hd rest) = [100, 100, 100, 90 :: real] ! 2
       \<and> direction (hd rest) = (if [1, 1, - 1, 0 :: real] ! 2 = 1 then Long else Short))"
    by blast
  then have "identify_trades (backtest_frame [bar 0, bar 1, bar 2, bar 3] [100, 100, 100, 90] [1, 1, - 1, 0] None 0) =
        snd (scan (take 2 (zip [bar 0, bar 1, bar 2, bar 3] (zip [100, 100, 100, 90] [1, 1, - 1, 0])))) @ [t] @ rest
    \<and> exit_time t = bar 2 \<and> exit_price t = 100 \<and> direction t = Long
    \<and> (rest = [] \<or> (entry_time (hd rest) = bar 2 \<and> entry_price (hd rest) = 100 \<and> direction (hd rest) = Short))"
    by simp
  then show ?thesis using h by blast
qed

lemma four_bar_input_report:
  "\<exists>m. backtest four_bar_input 0 = Inr m"
  "\<exists>m. backtest (four_bar_input\<lparr>position_size := Some [1 / 2, 1 / 2, 1 / 2, 1 / 2]\<rparr>) 0 = Inr m"
  by (rule backtest_total[where cl = "[100, 110, 99, 99]" and pos = "[0, 1, 1, 0]"];
      simp add: four_bar_input_def wf_dataframe_def)+



section \<open>The lagged position\<close>

lemma effective_position_frame:
  "effective_position (backtest_frame idx cl pos sizes cost) =
     (case sizes of Some sz \<Rightarrow> shift1 (map2 (\<lambda>p s. Some (p * s)) pos sz)
                  | None \<Rightarrow> shift1 (map Some pos))"
  by (simp add: backtest_frame_def Let_def)

lemma strategy_returns_frame:
  "strategy_returns (backtest_frame idx cl pos sizes cost) =
     map2 fmul (effective_position (backtest_frame idx cl pos sizes cost))
       (returns (backtest_frame idx cl pos sizes cost))"
  by (simp add: backtest_frame_def Let_def)

lemma returns_frame: "returns (backtest_frame idx cl pos sizes cost) = pct_change cl"
  by (simp add: backtest_frame_def Let_def)

lemma length_effective_position:
  assumes "case sizes of None \<Rightarrow> True | Some sz \<Rightarrow> length sz = length pos"
  shows "length (effective_position (backtest_frame idx cl pos sizes cost)) = length pos"
  using assms by (cases sizes) (simp_all add: effective_position_frame length_shift1)

lemma effective_position_first:
  assumes "case sizes of None \<Rightarrow> True | Some sz \<Rightarrow> length sz = length pos" "pos \<noteq> []"
  shows "effective_position (backtest_frame idx cl pos sizes cost) ! 0 = None"
  using assms by (cases sizes) (auto simp: effective_position_frame shift1_def)

lemma effective_position_later:
  assumes "case sizes of None \<Rightarrow> True | Some sz \<Rightarrow> length sz = length pos" "0 < i" "i < length pos"
  shows "effective_position (backtest_frame idx cl pos sizes cost) ! i =
           Some (pos ! (i - 1) * (case sizes of None \<Rightarrow> 1 | Some sz \<Rightarrow> sz ! (i - 1)))"
  using assms by (cases sizes) (simp_all add: effective_position_frame nth_shift1)

text \<open>
  C3, as stated, fails in its first row: the effective position of the first bar is the
  missing value that \<open>shift(1)\<close> leaves there, not zero.
\<close>

theorem effective_position_first_not_zero:
  "effective_position (backtest_frame [bar 0, bar 1] [100, 110] [1, 1] (Some [1, 1]) 0) ! 0 \<noteq> Some 0"
  by (simp add: effective_position_frame shift1_def)

text \<open>
  C3, amended: for columns of one length and every bar \<open>i\<close> after the first, the
  effective position is the position of bar \<open>i - 1\<close> times the size of bar \<open>i - 1\<close>
  (times 1 without a size column); at the first bar it is missing, and so is the strategy
  return there. The strategy return of every bar is the product of the bar's effective
  position and period return, so for \<open>i\<close> after the first it is
  position[i-1] * size[i-1] * (close[i] / close[i-1] - 1) and reads no position of bar
  \<open>i\<close> itself.
\<close>

theorem effective_position_lag:
  assumes "length cl = length pos"
    and "case sizes of None \<Rightarrow> True | Some sz \<Rightarrow> length sz = length pos"
    and "i < length pos"
  shows "effective_position (backtest_frame idx cl pos sizes cost) ! 0 = None
    \<and> (0 < i \<longrightarrow> effective_position (backtest_frame idx cl pos sizes cost) ! i =
          Some (pos ! (i - 1) * (case sizes of None \<Rightarrow> 1 | Some sz \<Rightarrow> sz ! (i - 1))))
    \<and> strategy_returns (backtest_frame idx cl pos sizes cost) ! i =
          fmul (effective_position (backtest_frame idx cl pos sizes cost) ! i)
               (returns (backtest_frame idx cl pos sizes cost) ! i)
    \<and> strategy_returns (backtest_frame idx cl pos sizes cost) ! 0 = None
    \<and> (0 < i \<and> cl ! (i - 1) \<noteq> 0 \<longrightarrow> strategy_returns (backtest_frame idx cl pos sizes cost) ! i =
          Some (pos ! (i - 1) * (case sizes of None \<Rightarrow> 1 | Some sz \<Rightarrow> sz ! (i - 1))
                * (cl ! i / cl ! (i - 1) - 1)))"
proof -
  let ?df = "backtest_frame idx cl pos sizes cost"
  have ne: "pos \<noteq> []" using assms(3) by auto
  have le: "length (effective_position ?df) = length pos"
    using assms(2) by (rule length_effective_position)
  have lr: "length (returns ?df) = length pos"
    using assms(1) by (simp add: returns_frame length_pct_change)
  have e0: "effective_position ?df ! 0 = None"
    using assms(2) ne by (rule effective_position_first)
  have ei: "0 < i \<longrightarrow> effective_position ?df ! i =
          Some (pos ! (i - 1) * (case sizes of None \<Rightarrow> 1 | Some sz \<Rightarrow> sz ! (i - 1)))"
    using effective_position_later[OF assms(2) _ assms(3)] by blast
  have s: "strategy_returns ?df ! j = fmul (effective_position ?df ! j) (returns ?df ! j)"
    if "j < length pos" for j
    using that le lr by (simp add: strategy_returns_frame)
  have s0: "strategy_returns ?df ! 0 = None"
    using s[of 0] ne e0 by (simp add: fmul_def)
  have si: "0 < i \<and> cl ! (i - 1) \<noteq> 0 \<longrightarrow> strategy_returns ?df ! i =
          Some (pos ! (i - 1) * (case sizes of None \<Rightarrow> 1 | Some sz \<Rightarrow> sz ! (i - 1))
                * (cl ! i / cl ! (i - 1) - 1))"
    using s[OF assms(3)] ei assms(1,3) by (auto simp: returns_frame nth_pct_change fmul_def)
  from e0 ei s[OF assms(3)] s0 si show ?thesis by blast
qed

theorem effective_position_lag_witness:
  "length [100, 110, 99 :: real] = length [1, 1, 0 :: real]
   \<and> length [1 / 2, 1 / 2, 1 / 2 :: real] = length [1, 1, 0 :: real]
   \<and> (1 :: nat) < length [1, 1, 0 :: real]
   \<and> effective_position (backtest_frame [bar 0, bar 1, bar 2] [100, 110, 99] [1, 1, 0]
        (Some [1 / 2, 1 / 2, 1 / 2]) 0) ! 0 = None
   \<and> effective_position (backtest_frame [bar 0, bar 1, bar 2] [100, 110, 99] [1, 1, 0]
        (Some [1 / 2, 1 / 2, 1 / 2]) 0) ! 1 = Some (1 / 2)
   \<and> strategy_returns (backtest_frame [bar 0, bar 1, bar 2] [100, 110, 99] [1, 1, 0]
        (Some [1 / 2, 1 / 2, 1 / 2]) 0) ! 1 = Some (1 / 20)"
proof -
  let ?df = "backtest_frame [bar 0, bar 1, bar 2] [100, 110, 99] [1, 1, 0] (Some [1 / 2, 1 / 2, 1 / 2]) 0"
  have h: "length [100, 110, 99 :: real] = length [1, 1, 0 :: real]"
    "case Some [1 / 2, 1 / 2, 1 / 2 :: real] of None \<Rightarrow> True | Some sz \<Rightarrow> length sz = length [1, 1, 0 :: real]"
    "(1 :: nat) < length [1, 1, 0 :: real]"
    by simp_all
  note t = effective_position_lag[OF h, of "[bar 0, bar 1, bar 2]" 0]
  have a: "effective_position ?df ! 0 = None"
    using t[THEN conjunct1] .
  have b: "effective_position ?df ! 1 = Some (1 / 2)"
    using t[THEN conjunct2, THEN conjunct1] by simp
  have c: "strategy_returns ?df ! 1 = Some (1 / 20)"
    using t[THEN conjunct2, THEN conjunct2, THEN conjunct2, THEN conjunct2] by simp
  from a b c show ?thesis by simp
qed

section \<open>The equity curve\<close>

lemma cumprod_from_Some:
  "cumprod_from acc (map Some xs) =
     map (\<lambda>k. Some (acc * prod_list (take (Suc k) xs))) [0..<length xs]"
proof (induction xs arbitrary: acc)
  case Nil
  then show ?case by simp
next
  case (Cons x xs)
  have "[0..<length (x # xs)] = 0 # map Suc [0..<length xs]"
    by (simp add: upt_conv_Cons map_Suc_upt del: upt_Suc)
  then show ?case
    by (simp add: Cons.IH mult.assoc comp_def del: upt_Suc)
qed

lemma build_equity_curve_shape:
  "build_equity_curve (None # map Some rs) =
     Some 1 # map (\<lambda>k. Some (prod_list (map (\<lambda>r. 1 + r) (take (Suc k) rs)))) [0..<length rs]"
proof -
  have m: "map (\<lambda>r. lift2 (+) (Some 1) r) (None # map Some rs) =
      None # map Some (map (\<lambda>r. 1 + r) rs)"
    by simp
  have c: "cumprod_from 1 (map Some (map (\<lambda>r. 1 + r) rs)) =
      map (\<lambda>k. Some (1 * prod_list (take (Suc k) (map (\<lambda>r. 1 + r) rs)))) [0..<length (map (\<lambda>r. 1 + r) rs)]"
    by (rule cumprod_from_Some)
  have "build_equity_curve (None # map Some rs) =
      fillna 1 (None # cumprod_from 1 (map Some (map (\<lambda>r. 1 + r) rs)))"
    unfolding build_equity_curve_def cumprod_def m by simp
  also have "\<dots> = Some 1 # map (\<lambda>k. Some (prod_list (map (\<lambda>r. 1 + r) (take (Suc k) rs)))) [0..<length rs]"
    unfolding c by (simp add: fillna_def take_map del: upt_Suc)
  finally show ?thesis .
qed

lemma all_present: "(\<forall>x \<in> set xs. x \<noteq> None) \<Longrightarrow> xs = map Some (dropna xs)"
  by (induction xs rule: dropna.induct) auto

lemma first_missing_shape:
  assumes "xs \<noteq> []" "xs ! 0 = None" "\<forall>i. 0 < i \<and> i < length xs \<longrightarrow> xs ! i \<noteq> None"
  shows "xs = None # map Some (dropna xs)"
proof -
  from assms(1,2) obtain ys where xs: "xs = None # ys" by (cases xs) auto
  have "\<forall>x \<in> set ys. x \<noteq> None"
  proof
    fix x assume "x \<in> set ys"
    then obtain j where "j < length ys" "ys ! j = x" by (auto simp: in_set_conv_nth)
    with assms(3)[rule_format, of "Suc j"] xs show "x \<noteq> None" by auto
  qed
  from all_present[OF this] xs show ?thesis by simp
qed

lemma net_returns_frame:
  "net_returns (backtest_frame idx cl pos sizes cost) =
     map2 fsub (strategy_returns (backtest_frame idx cl pos sizes cost))
       (map (\<lambda>c. fmul c (Some cost)) (map fabs (diff pos)))"
  by (simp add: backtest_frame_def Let_def)

lemma net_returns_first:
  assumes "length cl = length pos"
    and "case sizes of None \<Rightarrow> True | Some sz \<Rightarrow> length sz = length pos"
    and "pos \<noteq> []"
  shows "net_returns (backtest_frame idx cl pos sizes cost) ! 0 = None"
proof -
  let ?df = "backtest_frame idx cl pos sizes cost"
  have ls: "length (strategy_returns ?df) = length pos"
    using assms(1) length_effective_position[OF assms(2)]
    by (simp add: strategy_returns_frame returns_frame length_pct_change)
  have lp: "0 < length pos" using assms(3) by simp
  have "strategy_returns ?df ! 0 = None"
    using effective_position_first[OF assms(2,3)] ls lp
    by (simp add: strategy_returns_frame length_effective_position[OF assms(2)] returns_frame
        length_pct_change assms(1) fmul_def)
  then show ?thesis
    using ls lp by (simp add: net_returns_frame length_diff fsub_def)
qed

lemma build_equity_curve_first:
  assumes "net \<noteq> []" "net ! 0 = None"
  shows "build_equity_curve net ! 0 = Some 1"
proof -
  from assms obtain xs where "net = None # xs" by (cases net) auto
  then show ?thesis by (simp add: build_equity_curve_def cumprod_def fillna_def)
qed

lemma net_returns_shape:
  assumes "length cl = length pos"
    and "case sizes of None \<Rightarrow> True | Some sz \<Rightarrow> length sz = length pos"
    and "pos \<noteq> []" and "0 \<notin> set cl"
  shows "net_returns (backtest_frame idx cl pos sizes cost) =
           None # map Some (dropna (net_returns (backtest_frame idx cl pos sizes cost)))"
proof (rule first_missing_shape)
  let ?df = "backtest_frame idx cl pos sizes cost"
  have ln: "length (net_returns ?df) = length pos"
    using assms(1,2) by (intro length_net_returns) auto
  have ls: "length (strategy_returns ?df) = length pos"
    using assms(1) length_effective_position[OF assms(2)]
    by (simp add: strategy_returns_frame returns_frame length_pct_change)
  show "net_returns ?df \<noteq> []" using ln assms(3) by auto
  have n: "net_returns ?df ! j =
      fsub (strategy_returns ?df ! j) (fmul (fabs (diff pos ! j)) (Some cost))"
    if "j < length pos" for j
    using that ls by (simp add: net_returns_frame length_diff)
  show "net_returns ?df ! 0 = None"
    using assms(1-3) by (rule net_returns_first)
  show "\<forall>i. 0 < i \<and> i < length (net_returns ?df) \<longrightarrow> net_returns ?df ! i \<noteq> None"
  proof (intro allI impI)
    fix i assume i: "0 < i \<and> i < length (net_returns ?df)"
    then have il: "0 < i" "i < length pos" using ln by auto
    then have "cl ! (i - 1) \<in> set cl" using assms(1) by (intro nth_mem) simp
    with assms(4) have nz: "cl ! (i - 1) \<noteq> 0" by metis
    have "strategy_returns ?df ! i =
        fmul (effective_position ?df ! i) (returns ?df ! i)"
      using il assms(1) length_effective_position[OF assms(2)]
      by (simp add: strategy_returns_frame returns_frame length_pct_change)
    then have "strategy_returns ?df ! i \<noteq> None"
      using effective_position_later[OF assms(2) il] il assms(1) nz
      by (simp add: returns_frame nth_pct_change fmul_def)
    then show "net_returns ?df ! i \<noteq> None"
      using n[OF il(2)] il by (auto simp: nth_diff fabs_def fsub_def fmul_def)
  qed
qed

lemma zero_close_net_returns:
  "net_returns (backtest_frame [bar 0, bar 1, bar 2] [64, 0, 0] [1, 1, 1] None 0) =
     [None, Some (- 1), None]"
  by (simp add: backtest_frame_def Let_def pct_change_def diff_def shift1_def
      fsub_def fdiv_def fmul_def fabs_def)

lemma zero_close_report: "\<exists>m. backtest zero_close 0 = Inr m"
  by (rule backtest_total[of zero_close "[64, 0, 0]" "[1, 1, 1]"])
     (simp_all add: zero_close_def wf_dataframe_def)

text \<open>
  C4, as stated, fails: the price falls from 64 to 0 and stays there, so the third net
  return is 0 / 0 - 1, undefined as the first is, and the third slot of the equity curve is
  forced to 1 as well, after a running product of 0.
\<close>

theorem zero_close_forces_later_slot:
  "net_returns (backtest_frame (index zero_close) [64, 0, 0] [1, 1, 1] None 0) =
     [None, Some (- 1), None]
   \<and> map_sum id equity_curve (backtest zero_close 0) = Inr [Some 1, Some 0, Some 1]"
proof -
  let ?df = "backtest_frame [bar 0, bar 1, bar 2] [64, 0, 0] [1, 1, 1] None 0"
  from zero_close_report obtain m where m: "backtest zero_close 0 = Inr m" ..
  from backtest_Inr[OF m]
  have "calculate_all_metrics ?df (net_returns ?df) 0 = Inr m"
    by (simp add: zero_close_def)
  then have "equity_curve m = build_equity_curve (net_returns ?df)"
    by (rule calculate_all_metrics_Inr(2))
  also have "\<dots> = [Some 1, Some 0, Some 1]"
    unfolding zero_close_net_returns
    by (simp add: build_equity_curve_def cumprod_def fillna_def)
  finally have "equity_curve m = [Some 1, Some 0, Some 1]" .
  with m zero_close_net_returns show ?thesis by (simp add: zero_close_def)
qed

text \<open>
  C4, amended: the equity curve of every report of a well-formed input starts with exactly
  1. When no close is zero, the net returns are one missing value followed by present
  ones, and the equity curve is 1 followed by the running products of (1 + net return)
  over them.
\<close>

theorem equity_curve_running_product:
  assumes "backtest data cost = Inr m" and "wf_dataframe data"
    and "Close data = Some cl" and "position data = Some pos"
  shows "equity_curve m ! 0 = Some 1 \<and>
     (0 \<notin> set cl \<longrightarrow>
       (\<exists>rs. net_returns (backtest_frame (index data) cl pos (position_size data) cost) =
                None # map Some rs
           \<and> equity_curve m =
                Some 1 # map (\<lambda>k. Some (prod_list (map (\<lambda>r. 1 + r) (take (Suc k) rs))))
                           [0..<length rs]))"
proof -
  let ?df = "backtest_frame (index data) cl pos (position_size data) cost"
  from backtest_Inr[OF assms(1)] assms(3,4)
  have m: "calculate_all_metrics ?df (net_returns ?df) cost = Inr m" by auto
  note l = wf_dataframe_lengths[OF assms(2,3,4)]
  have ls: "case position_size data of None \<Rightarrow> True | Some sz \<Rightarrow> length sz = length pos"
    using l by (cases "position_size data") simp_all
  have lc: "length cl = length pos" using l by simp
  have ln: "length (net_returns ?df) = length pos"
    using lc ls by (intro length_net_returns) simp_all
  from calculate_all_metrics_Inr(4)[OF m] ln have ne: "pos \<noteq> []" by auto
  have eq: "equity_curve m = build_equity_curve (net_returns ?df)"
    using calculate_all_metrics_Inr(2)[OF m] .
  have n0: "net_returns ?df ! 0 = None"
    using lc ls ne by (rule net_returns_first)
  have first: "equity_curve m ! 0 = Some 1"
    unfolding eq using calculate_all_metrics_Inr(4)[OF m] n0 by (rule build_equity_curve_first)
  have rest: "\<exists>rs. net_returns ?df = None # map Some rs
           \<and> equity_curve m =
                Some 1 # map (\<lambda>k. Some (prod_list (map (\<lambda>r. 1 + r) (take (Suc k) rs))))
                           [0..<length rs]" if z: "0 \<notin> set cl"
  proof -
    have sh: "net_returns ?df = None # map Some (dropna (net_returns ?df))"
      using lc ls ne z by (rule net_returns_shape)
    have "build_equity_curve (net_returns ?df) =
        Some 1 # map (\<lambda>k. Some (prod_list (map (\<lambda>r. 1 + r) (take (Suc k) (dropna (net_returns ?df))))))
                   [0..<length (dropna (net_returns ?df))]"
      using build_equity_curve_shape[of "dropna (net_returns ?df)"] sh by simp
    with eq sh show ?thesis by auto
  qed
  from first rest show ?thesis by blast
qed

theorem equity_curve_running_product_witness:
  "\<exists>m. backtest four_bar_input 0 = Inr m \<and> wf_dataframe four_bar_input
     \<and> Close four_bar_input = Some [100, 110, 99, 99]
     \<and> position four_bar_input = Some [0, 1, 1, 0]
     \<and> 0 \<notin> set [100, 110, 99, 99 :: real]
     \<and> equity_curve m ! 0 = Some 1
     \<and> equity_curve m = [Some 1, Some 1, Some (9 / 10), Some (9 / 10)]"
proof -
  from four_bar_input_report(1) obtain m where m: "backtest four_bar_input 0 = Inr m" ..
  have h: "wf_dataframe four_bar_input" "Close four_bar_input = Some [100, 110, 99, 99]"
    "position four_bar_input = Some [0, 1, 1, 0]"
    by (simp_all add: four_bar_input_def wf_dataframe_def)
  have z: "0 \<notin> set [100, 110, 99, 99 :: real]" by simp
  from equity_curve_running_product[OF m h] have e0: "equity_curve m ! 0 = Some 1" by blast
  from backtest_Inr[OF m]
  have "calculate_all_metrics four_bars (net_returns four_bars) 0 = Inr m"
    by (simp add: four_bar_input_def four_bars_def)
  then have "equity_curve m = build_equity_curve (net_returns four_bars)"
    by (rule calculate_all_metrics_Inr(2))
  also have "\<dots> = [Some 1, Some 1, Some (9 / 10), Some (9 / 10)]"
    by (simp add: four_bars_def backtest_frame_def Let_def pct_change_def diff_def shift1_def
        fsub_def fdiv_def fmul_def fabs_def build_equity_curve_def cumprod_def fillna_def)
  finally have e: "equity_curve m = [Some 1, Some 1, Some (9 / 10), Some (9 / 10)]" .
  from m h z e0 e show ?thesis by (intro exI[of _ m] conjI)
qed

section \<open>The profit factor\<close>

lemma sum_list_negative: "xs \<noteq> [] \<Longrightarrow> \<forall>x \<in> set xs. x < 0 \<Longrightarrow> sum_list xs < (0 :: real)"
proof (induction xs)
  case Nil
  then show ?case by simp
next
  case (Cons x xs)
  then show ?case by (cases "xs = []") (auto intro: add_neg_neg)
qed

lemma sum_list_positive: "xs \<noteq> [] \<Longrightarrow> \<forall>x \<in> set xs. 0 < x \<Longrightarrow> 0 < sum_list (xs :: real list)"
proof (induction xs)
  case Nil
  then show ?case by simp
next
  case (Cons x xs)
  then show ?case by (cases "xs = []") (auto intro: add_pos_pos)
qed

lemma gross_loss_zero:
  "\<bar>sum_list (map pnl (filter (\<lambda>t. pnl t < 0) ts))\<bar> = 0 \<longleftrightarrow> filter (\<lambda>t. pnl t < 0) ts = []"
proof (cases "filter (\<lambda>t. pnl t < 0) ts = []")
  case True
  then show ?thesis by simp
next
  case False
  then have "sum_list (map pnl (filter (\<lambda>t. pnl t < 0) ts)) < 0"
    by (intro sum_list_negative) auto
  with False show ?thesis by simp
qed

lemma gross_profit_positive:
  "0 < sum_list (map pnl (filter (\<lambda>t. pnl t > 0) ts)) \<longleftrightarrow> filter (\<lambda>t. pnl t > 0) ts \<noteq> []"
proof (cases "filter (\<lambda>t. pnl t > 0) ts = []")
  case True
  then show ?thesis by simp
next
  case False
  then have "0 < sum_list (map pnl (filter (\<lambda>t. pnl t > 0) ts))"
    by (intro sum_list_positive) auto
  with False show ?thesis by simp
qed

text \<open>
  C8: the profit factor is 0 for an empty trade log; without a losing trade it is infinite
  when there is a winning trade and 0 otherwise; with a losing trade it is the sum of the
  positive pnl over the absolute value of the sum of the negative pnl, whose divisor is
  not zero. No case raises.
\<close>

theorem profit_factor_cases:
  "calculate_profit_factor ts =
     (if ts = [] then Finite 0
      else if filter (\<lambda>t. pnl t < 0) ts = []
           then (if filter (\<lambda>t. pnl t > 0) ts \<noteq> [] then Infinity else Finite 0)
      else Finite (sum_list (map pnl (filter (\<lambda>t. pnl t > 0) ts))
                   / \<bar>sum_list (map pnl (filter (\<lambda>t. pnl t < 0) ts))\<bar>))
   \<and> (filter (\<lambda>t. pnl t < 0) ts \<noteq> [] \<longrightarrow>
         \<bar>sum_list (map pnl (filter (\<lambda>t. pnl t < 0) ts))\<bar> \<noteq> 0)"
  using gross_loss_zero[of ts] gross_profit_positive[of ts]
  by (simp add: calculate_profit_factor_def Let_def)

theorem profit_factor_cases_witness:
  "calculate_profit_factor (identify_trades four_bars) = Finite 0
   \<and> filter (\<lambda>t. pnl t < 0) (identify_trades four_bars) \<noteq> []
   \<and> \<bar>sum_list (map pnl (filter (\<lambda>t. pnl t < 0) (identify_trades four_bars)))\<bar> = 1 / 10
   \<and> calculate_profit_factor [] = Finite 0"
  using profit_factor_cases[of "identify_trades four_bars"] profit_factor_cases[of "[]"]
  by (simp add: four_bars_trades)

section \<open>The Sharpe ratio\<close>

lemma sharpe_short: "length rets < 2 \<Longrightarrow> calculate_sharpe_ratio rets ppy = Some 0"
  by (simp add: calculate_sharpe_ratio_def)

lemma sharpe_zero_std: "std rets = Some 0 \<Longrightarrow> calculate_sharpe_ratio rets ppy = Some 0"
  by (simp add: calculate_sharpe_ratio_def Let_def)

lemma sharpe_otherwise:
  "\<not> length rets < 2 \<Longrightarrow> std rets \<noteq> Some 0 \<Longrightarrow>
     calculate_sharpe_ratio rets ppy = fmul (fdiv (mean rets) (std rets)) (Some (sqrt (real ppy)))"
  by (simp add: calculate_sharpe_ratio_def Let_def)

lemma sharpe_one_observation:
  "\<not> length rets < 2 \<Longrightarrow> length (dropna rets) < 2 \<Longrightarrow> calculate_sharpe_ratio rets ppy = None"
  by (simp add: calculate_sharpe_ratio_def Let_def std_def fmul_def fdiv_def split: option.splits)

lemma two_bars_report: "\<exists>m. backtest two_bars 0 = Inr m"
  by (rule backtest_total[of two_bars "[100, 110]" "[1, 1]"])
     (simp_all add: two_bars_def wf_dataframe_def)

lemma two_bars_net_returns:
  "net_returns (backtest_frame [bar 0, bar 1] [100, 110] [1, 1] None 0) = [None, Some (1 / 10)]"
  by (simp add: backtest_frame_def Let_def pct_change_def diff_def shift1_def
      fsub_def fdiv_def fmul_def fabs_def)

lemma two_bars_yearly:
  "calculate_yearly_metrics (zip [bar 0, bar 1] [None, Some (1 / 10)])
      (zip [bar 0, bar 1] (build_equity_curve [None, Some (1 / 10)])) ppy = Inr ym \<Longrightarrow>
   yearly_sharpe ym = [(2024, Some 0)]"
  by (auto simp: calculate_yearly_metrics_def group_keys_def bar_def year_metrics_def get_group_def
      group_rows_def
      Let_def std_def build_equity_curve_def cumprod_def fillna_def)

text \<open>
  C7 at a series of two bars, which has one return observation: the net returns are a
  missing value and 1/10, \<open>len(returns)\<close> is 2, the standard deviation of one value is
  missing, and the Sharpe ratio of the report is missing, not 0. The yearly Sharpe ratio
  of the same returns is 0.
\<close>

theorem sharpe_of_one_return_undefined:
  "\<exists>m. backtest two_bars 0 = Inr m
     \<and> net_returns (backtest_frame (index two_bars) [100, 110] [1, 1] None 0) = [None, Some (1 / 10)]
     \<and> sharpe_ratio m = None
     \<and> m_yearly_sharpe m = [(2024, Some 0)]"
proof -
  from two_bars_report obtain m where m: "backtest two_bars 0 = Inr m" ..
  let ?df = "backtest_frame [bar 0, bar 1] [100, 110] [1, 1] None 0"
  from backtest_Inr[OF m]
  have c: "calculate_all_metrics ?df (net_returns ?df) 0 = Inr m"
    by (simp add: two_bars_def)
  have i: "df_index ?df = [bar 0, bar 1]" by (simp add: backtest_frame_def Let_def)
  have "sharpe_ratio m = calculate_sharpe_ratio (net_returns ?df) (infer_frequency (df_index ?df))"
    using calculate_all_metrics_Inr(3)[OF c] .
  also have "\<dots> = None"
    unfolding two_bars_net_returns by (rule sharpe_one_observation) simp_all
  finally have s: "sharpe_ratio m = None" .
  from calculate_all_metrics_Inr(5)[OF c] obtain ym where
    y: "calculate_yearly_metrics (zip (df_index ?df) (net_returns ?df))
            (zip (df_index ?df) (build_equity_curve (net_returns ?df)))
            (infer_frequency (df_index ?df)) = Inr ym"
    and ys: "m_yearly_sharpe m = yearly_sharpe ym" by blast
  from y have "yearly_sharpe ym = [(2024, Some 0)]"
    unfolding two_bars_net_returns i by (rule two_bars_yearly)
  with ys have ysh: "m_yearly_sharpe m = [(2024, Some 0)]" by simp
  have n: "net_returns (backtest_frame (index two_bars) [100, 110] [1, 1] None 0) = [None, Some (1 / 10)]"
    using two_bars_net_returns by (simp add: two_bars_def)
  from m n s ysh show ?thesis by (intro exI[of _ m] conjI)
qed

section \<open>The drawdown of a slice\<close>

lemma cummax_from_Some:
  "cummax_from (Some m) (map Some xs) =
     map (\<lambda>k. Some (Max (set (m # take (Suc k) xs)))) [0..<length xs]"
proof (induction xs arbitrary: m)
  case Nil
  then show ?case by simp
next
  case (Cons x xs)
  have u: "[0..<length (x # xs)] = 0 # map Suc [0..<length xs]"
    by (simp add: upt_conv_Cons map_Suc_upt del: upt_Suc)
  have "Max (set (max m x # take (Suc k) xs)) = Max (set (m # take (Suc (Suc k)) (x # xs)))" for k
  proof -
    have "Max (set (m # x # take (Suc k) xs)) = max m (Max (set (x # take (Suc k) xs)))"
      by (simp del: take_Suc_Cons)
    also have "\<dots> = max m (max x (Max (set (take (Suc k) xs))))" if "xs \<noteq> []"
      using that by (cases xs) simp_all
    finally show ?thesis
      by (cases xs) (simp_all add: max.assoc)
  qed
  then show ?case
    unfolding u by (simp add: Cons.IH comp_def del: upt_Suc take_Suc_Cons) (simp add: max.commute)
qed

lemma cummax_Some:
  "cummax (map Some es) = map (\<lambda>i. Some (Max (set (take (Suc i) es)))) [0..<length es]"
proof (cases es)
  case Nil
  then show ?thesis by (simp add: cummax_def)
next
  case (Cons e es')
  have u: "[0..<length (e # es')] = 0 # map Suc [0..<length es']"
    by (simp add: upt_conv_Cons map_Suc_upt del: upt_Suc)
  show ?thesis
    unfolding Cons u by (simp add: cummax_def cummax_from_Some comp_def del: upt_Suc)
qed

lemma Max_prefix_positive:
  assumes "\<forall>v \<in> set es. 0 < (v :: real)" "i < length es"
  shows "0 < Max (set (take (Suc i) es))"
proof -
  have "es ! 0 \<in> set (take (Suc i) es)"
    using assms(2) by (cases es) auto
  then have "es ! 0 \<le> Max (set (take (Suc i) es))" by simp
  moreover have "0 < es ! 0" using assms by (cases es) auto
  ultimately show ?thesis by linarith
qed

lemma drawdown_Some:
  assumes "\<forall>v \<in> set es. 0 < v"
  shows "map2 (\<lambda>e m. fdiv (fsub e m) m) (map Some es) (cummax (map Some es)) =
     map Some (slice_drawdowns es)"
proof (rule nth_equalityI)
  show "length (map2 (\<lambda>e m. fdiv (fsub e m) m) (map Some es) (cummax (map Some es))) =
      length (map Some (slice_drawdowns es))"
    by (simp add: cummax_Some slice_drawdowns_def)
  fix i assume "i < length (map2 (\<lambda>e m. fdiv (fsub e m) m) (map Some es) (cummax (map Some es)))"
  then have i: "i < length es" by (simp add: cummax_Some)
  from Max_prefix_positive[OF assms i] have "Max (set (take (Suc i) es)) \<noteq> 0" by simp
  with i show "map2 (\<lambda>e m. fdiv (fsub e m) m) (map Some es) (cummax (map Some es)) ! i =
      map Some (slice_drawdowns es) ! i"
    by (simp add: cummax_Some slice_drawdowns_def fdiv_def fsub_def del: upt_Suc)
qed

lemma dropna_Some: "dropna (map Some xs) = xs"
  by (induction xs) auto

lemma fmin_Some: "xs \<noteq> [] \<Longrightarrow> fmin (map Some xs) = Some (Min (set xs))"
  by (cases xs) (simp_all add: fmin_def dropna_Some Min.set_eq_fold del: set_simps)

lemma slice_drawdowns_nonempty: "es \<noteq> [] \<Longrightarrow> slice_drawdowns es \<noteq> []"
  by (simp add: slice_drawdowns_def)

lemma slice_max_drawdown_code:
  "es \<noteq> [] \<Longrightarrow> \<forall>v \<in> set es. 0 < v \<Longrightarrow>
     fmin (map2 (\<lambda>e m. fdiv (fsub e m) m) (map Some es) (cummax (map Some es))) =
       Some (slice_max_drawdown es)"
  by (simp add: drawdown_Some fmin_Some slice_drawdowns_nonempty slice_max_drawdown_def)

lemma Max_sorted_prefix:
  assumes "sorted es" "i < length es"
  shows "Max (set (take (Suc i) es)) = es ! i"
proof (rule Max_eqI)
  show "finite (set (take (Suc i) es))" by simp
  show "es ! i \<in> set (take (Suc i) es)"
    using assms(2) by (auto simp: in_set_conv_nth intro!: exI[of _ i])
  fix y assume "y \<in> set (take (Suc i) es)"
  then obtain j where "j < Suc i" "j < length es" "y = es ! j"
    by (auto simp: in_set_conv_nth)
  with assms show "y \<le> es ! i" by (auto simp: sorted_iff_nth_mono)
qed

lemma slice_max_drawdown_sorted:
  assumes "sorted es" "es \<noteq> []"
  shows "slice_max_drawdown es = 0"
proof -
  have "slice_drawdowns es = map (\<lambda>i. 0) [0..<length es]"
    unfolding slice_drawdowns_def using assms(1) by (intro map_cong) (simp_all add: Max_sorted_prefix)
  moreover have "set (map (\<lambda>i. 0 :: real) [0..<length es]) = {0}"
  proof -
    from assms(2) have "(0 :: nat) \<in> {0..<length es}" by simp
    then have "(\<lambda>i. 0 :: real) ` {0..<length es} = {0}" by blast
    then show ?thesis by simp
  qed
  ultimately show ?thesis by (simp add: slice_max_drawdown_def)
qed

section \<open>The yearly max drawdown\<close>

lemma year_metrics_drawdown:
  assumes "year_metrics rets eq ppy y = Inr (r, s, d)"
  shows "d = fmin (map2 (\<lambda>e m. fdiv (fsub e m) m) (group_rows eq y) (cummax (group_rows eq y)))"
  using assms by (auto simp: year_metrics_def Let_def split: sum.splits dest: get_group_rows)

lemma yearly_loop_drawdown:
  "yearly_loop rets eq ppy ys acc = Inr ym \<Longrightarrow>
     yearly_max_drawdown ym = yearly_max_drawdown acc @
       map (\<lambda>y. (y, fmin (map2 (\<lambda>e m. fdiv (fsub e m) m) (group_rows eq y) (cummax (group_rows eq y))))) ys"
proof (induction ys arbitrary: acc)
  case Nil
  then show ?case by simp
next
  case (Cons y ys)
  from Cons.prems obtain r s d where ym: "year_metrics rets eq ppy y = Inr (r, s, d)"
    by (auto split: sum.splits)
  with Cons.prems have "yearly_loop rets eq ppy ys
      \<lparr> yearly_returns = yearly_returns acc @ [(y, r)],
        yearly_sharpe = yearly_sharpe acc @ [(y, s)],
        yearly_max_drawdown = yearly_max_drawdown acc @ [(y, d)] \<rparr> = Inr ym"
    by simp
  from Cons.IH[OF this] year_metrics_drawdown[OF ym] show ?case by simp
qed

lemma map_of_keys: "y \<in> set ys \<Longrightarrow> map_of (map (\<lambda>k. (k, f k)) ys) y = Some (f y)"
  by (induction ys) auto

lemma group_rows_present:
  assumes "\<forall>r \<in> set eq. case snd r of None \<Rightarrow> False | Some v \<Rightarrow> 0 < v"
  shows "group_rows eq y = map Some (dropna (group_rows eq y))"
proof (rule all_present)
  show "\<forall>x \<in> set (group_rows eq y). x \<noteq> None"
  proof
    fix x assume "x \<in> set (group_rows eq y)"
    then obtain r where "r \<in> set eq" "x = snd r" by (auto simp: group_rows_def)
    with assms show "x \<noteq> None" by (auto split: option.splits)
  qed
qed

text \<open>
  C9, amended: for returns and an equity curve over one index of two or more rows, with
  every equity value present and positive, each calendar year of the series gets a yearly
  max drawdown, and it is the minimum of the drawdowns of that year's equity slice against
  the running maximum of the slice alone. A year whose equity never falls from one bar to
  the next has yearly max drawdown 0.
\<close>

theorem yearly_drawdown_within_year:
  assumes "map fst rets = map fst eq"
    and "2 \<le> length rets"
    and "\<forall>r \<in> set eq. case snd r of None \<Rightarrow> False | Some v \<Rightarrow> 0 < v"
  shows "\<exists>ym. calculate_yearly_metrics rets eq ppy = Inr ym
     \<and> map fst (yearly_max_drawdown ym) = group_keys rets
     \<and> (\<forall>y \<in> set (group_keys rets).
           dropna (group_rows eq y) \<noteq> []
         \<and> map_of (yearly_max_drawdown ym) y =
             Some (Some (slice_max_drawdown (dropna (group_rows eq y))))
         \<and> (sorted (dropna (group_rows eq y)) \<longrightarrow>
               map_of (yearly_max_drawdown ym) y = Some (Some 0)))"
proof -
  let ?idx = "map fst rets"
  have r: "rets = zip ?idx (map snd rets)" by (simp add: zip_map_fst_snd)
  have e: "eq = zip ?idx (map snd eq)" using assms(1) by (simp add: zip_map_fst_snd)
  have le: "length eq = length rets"
    using arg_cong[OF assms(1), of length] by simp
  have ne: "group_rows eq y \<noteq> []" "group_rows rets y \<noteq> []" if "y \<in> set (group_keys rets)" for y
  proof -
    from that r have k: "y \<in> set (group_keys (zip ?idx (map snd rets)))" by simp
    from k have "group_rows (zip ?idx (map snd eq)) y \<noteq> []"
      by (rule group_rows_nonempty) (simp_all add: le)
    with e show "group_rows eq y \<noteq> []" by simp
    from k have "group_rows (zip ?idx (map snd rets)) y \<noteq> []"
      by (rule group_rows_nonempty) simp_all
    with r show "group_rows rets y \<noteq> []" by simp
  qed
  have l: "length rets \<noteq> 1" "length eq \<noteq> 1" using assms(2) le by simp_all
  have "\<forall>y \<in> set (group_keys rets). get_group rets y = Inr (group_rows rets y)
       \<and> get_group eq y = Inr (group_rows eq y)"
    using ne l by (simp add: get_group_Inr)
  from yearly_loop_total[OF this] obtain ym where
    ym: "calculate_yearly_metrics rets eq ppy = Inr ym"
    unfolding calculate_yearly_metrics_def by blast
  let ?dd = "\<lambda>y. fmin (map2 (\<lambda>e m. fdiv (fsub e m) m) (group_rows eq y) (cummax (group_rows eq y)))"
  from ym have dd: "yearly_max_drawdown ym = map (\<lambda>y. (y, ?dd y)) (group_keys rets)"
    using yearly_loop_drawdown[OF ym[unfolded calculate_yearly_metrics_def]] by simp
  have keys: "map fst (yearly_max_drawdown ym) = group_keys rets"
    unfolding dd by (simp add: comp_def)
  have per: "dropna (group_rows eq y) \<noteq> []
         \<and> map_of (yearly_max_drawdown ym) y =
             Some (Some (slice_max_drawdown (dropna (group_rows eq y))))
         \<and> (sorted (dropna (group_rows eq y)) \<longrightarrow>
               map_of (yearly_max_drawdown ym) y = Some (Some 0))"
    if y: "y \<in> set (group_keys rets)" for y
  proof -
    let ?es = "dropna (group_rows eq y)"
    have g: "group_rows eq y = map Some ?es" using assms(3) by (rule group_rows_present)
    with ne(1)[OF y] have n: "?es \<noteq> []" by auto
    have p: "\<forall>v \<in> set ?es. 0 < v"
    proof
      fix v assume "v \<in> set ?es"
      then have "Some v \<in> set (group_rows eq y)" using g by (metis imageI set_map)
      then obtain r where "r \<in> set eq" "snd r = Some v" by (auto simp: group_rows_def)
      with assms(3) show "0 < v" by force
    qed
    have "?dd y = Some (slice_max_drawdown ?es)"
      using slice_max_drawdown_code[OF n p] g by simp
    then have m: "map_of (yearly_max_drawdown ym) y = Some (Some (slice_max_drawdown ?es))"
      unfolding dd using map_of_keys[OF y, of ?dd] by simp
    from n m slice_max_drawdown_sorted[of ?es] show ?thesis by auto
  qed
  from ym keys per show ?thesis by blast
qed

text \<open>
  C9, as stated, fails in its last part: the equity of the year rises from 1 to 2 and falls
  to 3/2, so it never dips below the value the year started with, and the yearly max
  drawdown is -1/4, not 0.
\<close>

theorem drawdown_above_start_of_year:
  "dropna (map snd rise_and_fall) = [1, 2, 3 / 2]
   \<and> map_sum id yearly_max_drawdown
        (calculate_yearly_metrics rise_and_fall_returns rise_and_fall 365) =
       Inr [(2024, Some (- 1 / 4))]"
  by (simp add: rise_and_fall_def rise_and_fall_returns_def calculate_yearly_metrics_def
      group_keys_def bar_def year_metrics_def get_group_def group_rows_def Let_def cummax_def
      fmin_def fdiv_def fsub_def)

lemma two_years_keys: "group_keys two_years_returns = [2023, 2024]"
  by (simp add: group_keys_def two_years_returns_def stamp_def)

lemma two_years_groups:
  "dropna (group_rows two_years_equity 2023) = [1, 2, 3 / 2]"
  "dropna (group_rows two_years_equity 2024) = [3 / 2, 8 / 5]"
  by (simp_all add: group_rows_def two_years_equity_def stamp_def)

lemma slice_max_drawdown_rise_and_fall: "slice_max_drawdown [1, 2, 3 / 2] = - 1 / 4"
proof -
  have "[0..<length [1, 2, 3 / 2 :: real]] = [0, 1, 2]" by (simp add: upt_rec)
  then have "slice_drawdowns [1, 2, 3 / 2] = [0, 0, - 1 / 4]"
    by (simp add: slice_drawdowns_def)
  then show ?thesis by (simp add: slice_max_drawdown_def)
qed

theorem yearly_drawdown_within_year_witness:
  "map fst two_years_returns = map fst two_years_equity
   \<and> map snd two_years_equity = [Some 1, Some 2, Some (3 / 2), Some (3 / 2), Some (8 / 5)]
   \<and> (\<exists>ym. calculate_yearly_metrics two_years_returns two_years_equity 365 = Inr ym
         \<and> map fst (yearly_max_drawdown ym) = [2023, 2024]
         \<and> map_of (yearly_max_drawdown ym) 2023 = Some (Some (- 1 / 4))
         \<and> map_of (yearly_max_drawdown ym) 2024 = Some (Some 0))"
proof -
  have h1: "map fst two_years_returns = map fst two_years_equity"
    by (simp add: two_years_returns_def two_years_equity_def)
  have v: "map snd two_years_equity = [Some 1, Some 2, Some (3 / 2), Some (3 / 2), Some (8 / 5)]"
    by (simp add: two_years_equity_def)
  have h2: "\<forall>r \<in> set two_years_equity. case snd r of None \<Rightarrow> False | Some v \<Rightarrow> 0 < v"
    by (simp add: two_years_equity_def)
  have h0: "2 \<le> length two_years_returns" by (simp add: two_years_returns_def)
  from yearly_drawdown_within_year[OF h1 h0 h2, of 365] obtain ym where
    ym: "calculate_yearly_metrics two_years_returns two_years_equity 365 = Inr ym"
    and k: "map fst (yearly_max_drawdown ym) = group_keys two_years_returns"
    and p: "\<forall>y \<in> set (group_keys two_years_returns).
           dropna (group_rows two_years_equity y) \<noteq> []
         \<and> map_of (yearly_max_drawdown ym) y =
             Some (Some (slice_max_drawdown (dropna (group_rows two_years_equity y))))
         \<and> (sorted (dropna (group_rows two_years_equity y)) \<longrightarrow>
               map_of (yearly_max_drawdown ym) y = Some (Some 0))"
    by blast
  have "(2023 :: int) \<in> set (group_keys two_years_returns)" by (simp add: two_years_keys)
  with p have "map_of (yearly_max_drawdown ym) 2023 =
      Some (Some (slice_max_drawdown (dropna (group_rows two_years_equity 2023))))"
    by blast
  then have a: "map_of (yearly_max_drawdown ym) 2023 = Some (Some (- 1 / 4))"
    by (simp add: two_years_groups slice_max_drawdown_rise_and_fall)
  have "(2024 :: int) \<in> set (group_keys two_years_returns)" by (simp add: two_years_keys)
  with p have "sorted (dropna (group_rows two_years_equity 2024)) \<longrightarrow>
      map_of (yearly_max_drawdown ym) 2024 = Some (Some 0)"
    by blast
  then have b: "map_of (yearly_max_drawdown ym) 2024 = Some (Some 0)"
    by (simp add: two_years_groups)
  from h1 v ym k a b show ?thesis
    unfolding two_years_keys by (intro conjI exI[of _ ym])
qed

end
